theory Spec2Isabelle
  imports Complex_Main
begin

section \<open>JavaScript values\<close>

text \<open>
  The engine of \<^verbatim>\<open>dapbase.connection.js\<close> works on plain JSON data: every table is
  persisted with \<^verbatim>\<open>JSON.stringify\<close> and loaded with \<^verbatim>\<open>JSON.parse\<close>. A value is
  therefore \<^verbatim>\<open>null\<close>, a boolean, a finite number, a string, an array or an object.
  A finite double is a rational number and the engine only compares numbers, so numbers
  are \<open>rat\<close>. An object is the list of its own properties in enumeration order, with
  distinct keys; \<^verbatim>\<open>undefined\<close> is the absence of a property, so a property read has
  type \<open>jsval option\<close>. The members an object inherits from \<^verbatim>\<open>Object.prototype\<close> are
  modelled in row validation, which reads properties under names taken from the schema
  and from the row; the other reads of the engine are modelled on own properties.
  Strings are sequences of 8-bit characters.
\<close>

datatype jsval =
    JNull
  | JBool bool
  | JNum rat
  | JStr string
  | JArr "jsval list"
  | JObj "(string \<times> jsval) list"

type_synonym jsobj = "(string \<times> jsval) list"

datatype jsnum = NaN | NegInf | Fin rat | PosInf

text \<open>\<^verbatim>\<open>obj[k]\<close> on an object, and \<^verbatim>\<open>obj[k] = v\<close>: an existing property keeps its place.\<close>

fun getp :: "jsobj \<Rightarrow> string \<Rightarrow> jsval option" where
  "getp [] k = None"
| "getp ((k', v) # ps) k = (if k' = k then Some v else getp ps k)"

fun setp :: "jsobj \<Rightarrow> string \<Rightarrow> jsval \<Rightarrow> jsobj" where
  "setp [] k v = [(k, v)]"
| "setp ((k', v') # ps) k v = (if k' = k then (k, v) # ps else (k', v') # setp ps k v)"

text \<open>\<^verbatim>\<open>delete obj[k]\<close>.\<close>

definition delp :: "jsobj \<Rightarrow> string \<Rightarrow> jsobj" where
  "delp ps k = filter (\<lambda>p. fst p \<noteq> k) ps"

text \<open>\<^verbatim>\<open>{ ...a, ...b }\<close>.\<close>

definition spread :: "jsobj \<Rightarrow> jsobj \<Rightarrow> jsobj" where
  "spread a b = foldl (\<lambda>acc p. setp acc (fst p) (snd p)) a b"

text \<open>
  \<^verbatim>\<open>v.k\<close> on an arbitrary value, for the property names the engine reads
  (\<^verbatim>\<open>type\<close>, \<^verbatim>\<open>required\<close>, \<^verbatim>\<open>encrypted\<close>, ...): \<^verbatim>\<open>null.k\<close> raises a TypeError (the
  result \<open>None\<close>), an object gives its property, and booleans, numbers, strings and
  arrays have none of these properties.
\<close>

fun read_prop :: "jsval \<Rightarrow> string \<Rightarrow> jsval option option" where
  "read_prop JNull k = None"
| "read_prop (JObj ps) k = Some (getp ps k)"
| "read_prop v k = Some None"

text \<open>Truthiness (\<^verbatim>\<open>!!v\<close>), \<^verbatim>\<open>typeof\<close>.\<close>

fun truthy :: "jsval \<Rightarrow> bool" where
  "truthy JNull = False"
| "truthy (JBool b) = b"
| "truthy (JNum q) = (q \<noteq> 0)"
| "truthy (JStr s) = (s \<noteq> [])"
| "truthy (JArr xs) = True"
| "truthy (JObj ps) = True"

fun truthy_opt :: "jsval option \<Rightarrow> bool" where
  "truthy_opt None = False"
| "truthy_opt (Some v) = truthy v"

fun js_typeof :: "jsval \<Rightarrow> string" where
  "js_typeof JNull = ''object''"
| "js_typeof (JBool b) = ''boolean''"
| "js_typeof (JNum q) = ''number''"
| "js_typeof (JStr s) = ''string''"
| "js_typeof (JArr xs) = ''object''"
| "js_typeof (JObj ps) = ''object''"

text \<open>
  Strict equality \<^verbatim>\<open>a === b\<close> (and the SameValueZero of \<^verbatim>\<open>includes\<close>, which differs
  only at NaN). Primitives compare by value. Arrays and objects compare by reference:
  every place where the engine compares two values, they come from two different
  \<^verbatim>\<open>JSON.parse\<close> calls or from the caller and a \<^verbatim>\<open>JSON.parse\<close> call, so two arrays or
  objects are never the same reference. There are two exceptions. A row is compared with
  itself in \<^verbatim>\<open>update\<close>, which is modelled by position there. And after a join two rows
  can carry the same related record under the alias; only the comparator of the sort
  could compare them, so ordering by a field that holds a joined record is not modelled.
\<close>

fun strict_eq :: "jsval option \<Rightarrow> jsval option \<Rightarrow> bool" where
  "strict_eq None None = True"
| "strict_eq (Some JNull) (Some JNull) = True"
| "strict_eq (Some (JBool a)) (Some (JBool b)) = (a = b)"
| "strict_eq (Some (JNum a)) (Some (JNum b)) = (a = b)"
| "strict_eq (Some (JStr a)) (Some (JStr b)) = (a = b)"
| "strict_eq a b = False"

definition js_includes :: "jsval option list \<Rightarrow> jsval option \<Rightarrow> bool" where
  "js_includes xs v = list_ex (\<lambda>x. strict_eq x v) xs"

section \<open>The host\<close>

text \<open>
  The functions of the JavaScript engine and of Node.js that the repository calls and
  does not define are parameters of the model. \<open>uuidv4\<close> and \<open>now\<close> are indexed by
  the number of calls made so far.
\<close>

record host =
  str_to_number :: "string \<Rightarrow> jsnum"
  number_to_str :: "rat \<Rightarrow> string"
  regexp_test :: "string \<Rightarrow> string \<Rightarrow> bool option"
  date_parse :: "string \<Rightarrow> jsnum"
  json_parse :: "string \<Rightarrow> jsval option"
  json_stringify :: "jsval \<Rightarrow> string"
  array_sort :: "(jsobj \<Rightarrow> jsobj \<Rightarrow> int) \<Rightarrow> jsobj list \<Rightarrow> jsobj list"
  cipher_encrypt :: "string \<Rightarrow> string \<Rightarrow> string option"
  cipher_decrypt :: "string \<Rightarrow> string \<Rightarrow> string option"
  uuidv4 :: "nat \<Rightarrow> string"
  now :: "nat \<Rightarrow> string"
  native_to_str :: "string \<Rightarrow> string"

text \<open>
  \<open>str_to_number\<close> is \<^verbatim>\<open>Number(s)\<close> on a string, \<open>number_to_str\<close> is \<^verbatim>\<open>String(n)\<close> on a
  number, \<open>regexp_test p s\<close> is \<^verbatim>\<open>new RegExp(p).test(s)\<close> (\<open>None\<close>: the pattern does not
  compile, a SyntaxError), \<open>date_parse\<close> is \<^verbatim>\<open>Date.parse\<close>, \<open>json_parse\<close> is
  \<^verbatim>\<open>JSON.parse\<close> (\<open>None\<close>: it throws), \<open>array_sort\<close> is \<^verbatim>\<open>Array.prototype.sort\<close> with a
  comparator, \<open>cipher_encrypt key text\<close> is
  \<^verbatim>\<open>createCipher('aes-256-cbc', key)\<close> followed by \<^verbatim>\<open>update(text, 'utf8', 'hex')\<close> and
  \<^verbatim>\<open>final('hex')\<close>, and \<open>cipher_decrypt key hex\<close> is the same with \<^verbatim>\<open>createDecipher\<close>
  (\<open>None\<close>: one of the calls throws). \<open>native_to_str n\<close> is \<^verbatim>\<open>String(m)\<close> for the
  member \<open>m\<close> of \<^verbatim>\<open>Object.prototype\<close> named \<open>n\<close>, the text of a built-in function.
\<close>

text \<open>\<^verbatim>\<open>String(v)\<close>: an array joins its elements with commas, \<^verbatim>\<open>null\<close> elements empty.\<close>

fun join_commas :: "string list \<Rightarrow> string" where
  "join_commas [] = []"
| "join_commas [s] = s"
| "join_commas (s # t # ss) = s @ '','' @ join_commas (t # ss)"

fun to_string :: "host \<Rightarrow> jsval \<Rightarrow> string" where
  "to_string h JNull = ''null''"
| "to_string h (JBool b) = (if b then ''true'' else ''false'')"
| "to_string h (JNum q) = number_to_str h q"
| "to_string h (JStr s) = s"
| "to_string h (JArr xs) =
     join_commas (map (\<lambda>x. case x of JNull \<Rightarrow> [] | _ \<Rightarrow> to_string h x) xs)"
| "to_string h (JObj ps) = ''[object Object]''"

fun to_string_opt :: "host \<Rightarrow> jsval option \<Rightarrow> string" where
  "to_string_opt h None = ''undefined''"
| "to_string_opt h (Some v) = to_string h v"

text \<open>\<^verbatim>\<open>Number(v)\<close>.\<close>

fun to_number :: "host \<Rightarrow> jsval \<Rightarrow> jsnum" where
  "to_number h JNull = Fin 0"
| "to_number h (JBool b) = Fin (if b then 1 else 0)"
| "to_number h (JNum q) = Fin q"
| "to_number h (JStr s) = str_to_number h s"
| "to_number h (JArr xs) = str_to_number h (to_string h (JArr xs))"
| "to_number h (JObj ps) = str_to_number h (to_string h (JObj ps))"

fun to_number_opt :: "host \<Rightarrow> jsval option \<Rightarrow> jsnum" where
  "to_number_opt h None = NaN"
| "to_number_opt h (Some v) = to_number h v"

fun is_integer :: "jsnum \<Rightarrow> bool" where
  "is_integer (Fin q) = (q = of_int \<lfloor>q\<rfloor>)"
| "is_integer n = False"

text \<open>
  The relational comparison \<^verbatim>\<open>a < b\<close>: two strings (after arrays and objects have
  become strings) compare by code units, anything else as numbers; the result is
  undefined (\<open>None\<close>) when a side is NaN.
\<close>

fun str_lt :: "string \<Rightarrow> string \<Rightarrow> bool" where
  "str_lt [] [] = False"
| "str_lt [] (d # ds) = True"
| "str_lt (c # cs) [] = False"
| "str_lt (c # cs) (d # ds) =
     (if (of_char c :: nat) < of_char d then True
      else if (of_char d :: nat) < of_char c then False
      else str_lt cs ds)"

fun num_lt :: "jsnum \<Rightarrow> jsnum \<Rightarrow> bool option" where
  "num_lt NaN y = None"
| "num_lt x NaN = None"
| "num_lt (Fin a) (Fin b) = Some (a < b)"
| "num_lt NegInf NegInf = Some False"
| "num_lt NegInf y = Some True"
| "num_lt x NegInf = Some False"
| "num_lt PosInf y = Some False"
| "num_lt x PosInf = Some True"

fun to_primitive :: "host \<Rightarrow> jsval \<Rightarrow> jsval" where
  "to_primitive h (JArr xs) = JStr (to_string h (JArr xs))"
| "to_primitive h (JObj ps) = JStr (to_string h (JObj ps))"
| "to_primitive h v = v"

fun is_less_than :: "host \<Rightarrow> jsval option \<Rightarrow> jsval option \<Rightarrow> bool option" where
  "is_less_than h (Some a) (Some b) =
     (case (to_primitive h a, to_primitive h b) of
        (JStr s, JStr t) \<Rightarrow> Some (str_lt s t)
      | (pa, pb) \<Rightarrow> num_lt (to_number h pa) (to_number h pb))"
| "is_less_than h a b = None"

definition js_lt :: "host \<Rightarrow> jsval option \<Rightarrow> jsval option \<Rightarrow> bool" where
  "js_lt h a b = (is_less_than h a b = Some True)"

definition js_gt :: "host \<Rightarrow> jsval option \<Rightarrow> jsval option \<Rightarrow> bool" where
  "js_gt h a b = (is_less_than h b a = Some True)"

definition js_le :: "host \<Rightarrow> jsval option \<Rightarrow> jsval option \<Rightarrow> bool" where
  "js_le h a b = (is_less_than h b a = Some False)"

definition js_ge :: "host \<Rightarrow> jsval option \<Rightarrow> jsval option \<Rightarrow> bool" where
  "js_ge h a b = (is_less_than h a b = Some False)"

section \<open>Schema validation\<close>

text \<open>
  One constructor for each message \<^verbatim>\<open>validateRow\<close> pushes, with the values the message
  interpolates: the column, then the offending value and the bound where there is one.
\<close>

datatype violation =
    BadType string jsval string
  | IsRequired string
  | NotUnique string jsval
  | BelowMin string jsval jsval
  | AboveMax string jsval jsval
  | TooShort string nat jsval
  | TooLong string nat jsval
  | PatternMismatch string jsval jsval
  | ExtraField string

text \<open>The column (or field) a violation's message names.\<close>

fun violation_column :: "violation \<Rightarrow> string" where
  "violation_column (BadType c t ty) = c"
| "violation_column (IsRequired c) = c"
| "violation_column (NotUnique c v) = c"
| "violation_column (BelowMin c v m) = c"
| "violation_column (AboveMax c v m) = c"
| "violation_column (TooShort c n m) = c"
| "violation_column (TooLong c n m) = c"
| "violation_column (PatternMismatch c v p) = c"
| "violation_column (ExtraField f) = f"

text \<open>
  Every \<^verbatim>\<open>throw new Error(...)\<close> of the engine, and the errors of the runtime it can
  run into: a TypeError (a property of \<^verbatim>\<open>null\<close>, \<^verbatim>\<open>path.join\<close> on \<^verbatim>\<open>null\<close>), a
  SyntaxError (a pattern that is no regular expression) and the ENOENT of
  \<^verbatim>\<open>fs.readFileSync\<close> on a file that does not exist.
\<close>

datatype error =
    CallUseFirst
  | NoDatabaseSelected
  | TableNameRequired
  | InvalidColumnDefinition string
  | TableExists string
  | TableNotFound string
  | ValidationFailed "violation list"
  | ForeignTableMissing string
  | ForeignKeyViolation string "jsval option" string
  | ColumnExists string
  | ColumnMissing string
  | TypeError
  | SyntaxError
  | ENOENT string

text \<open>The pattern of \<^verbatim>\<open>validators.types.uuid\<close>: 8-4-4-4-12 hexadecimal digits, any case.\<close>

definition is_hex :: "char \<Rightarrow> bool" where
  "is_hex c = (c \<in> set ''0123456789abcdefABCDEF'')"

fun hex_run :: "nat \<Rightarrow> string \<Rightarrow> string option" where
  "hex_run 0 s = Some s"
| "hex_run (Suc n) [] = None"
| "hex_run (Suc n) (c # cs) = (if is_hex c then hex_run n cs else None)"

fun hex_groups :: "nat list \<Rightarrow> string \<Rightarrow> bool" where
  "hex_groups [] s = False"
| "hex_groups [n] s = (hex_run n s = Some [])"
| "hex_groups (n # m # ns) s =
     (case hex_run n s of
        Some (c # rest) \<Rightarrow> c = CHR ''-'' \<and> hex_groups (m # ns) rest
      | _ \<Rightarrow> False)"

definition is_uuid :: "string \<Rightarrow> bool" where
  "is_uuid s = hex_groups [8, 4, 4, 4, 12] s"

text \<open>
  A property read \<^verbatim>\<open>obj[k]\<close> under a name that comes from the schema or from the row
  sees the members that every object inherits from \<^verbatim>\<open>Object.prototype\<close>: when the
  object has no own property \<open>k\<close> and \<open>k\<close> is one of these names, the read gives the
  inherited member, a built-in function (for \<^verbatim>\<open>__proto__\<close>, \<^verbatim>\<open>Object.prototype\<close>
  itself), and not \<^verbatim>\<open>undefined\<close>. Such a member is no JSON value, so what a read
  gives is a type of its own.
\<close>

definition object_prototype_names :: "string list" where
  "object_prototype_names =
     [''constructor'', ''__defineGetter__'', ''__defineSetter__'', ''hasOwnProperty'',
      ''__lookupGetter__'', ''__lookupSetter__'', ''isPrototypeOf'', ''propertyIsEnumerable'',
      ''toString'', ''valueOf'', ''__proto__'', ''toLocaleString'']"

datatype looked = Undefined | Own jsval | Native string

definition js_read :: "jsobj \<Rightarrow> string \<Rightarrow> looked" where
  "js_read obj k =
     (case getp obj k of
        Some v \<Rightarrow> Own v
      | None \<Rightarrow> (if k \<in> set object_prototype_names then Native k else Undefined))"

text \<open>
  \<^verbatim>\<open>value !== undefined && value !== null\<close>, \<^verbatim>\<open>typeof value\<close>, truthiness, and
  \<^verbatim>\<open>a === b\<close> on what two reads gave (an inherited member is the same object for
  every row).
\<close>

fun present :: "looked \<Rightarrow> bool" where
  "present Undefined = False"
| "present (Own v) = (v \<noteq> JNull)"
| "present (Native n) = True"

fun looked_typeof :: "looked \<Rightarrow> string" where
  "looked_typeof Undefined = ''undefined''"
| "looked_typeof (Own v) = js_typeof v"
| "looked_typeof (Native n) = (if n = ''__proto__'' then ''object'' else ''function'')"

fun truthy_looked :: "looked \<Rightarrow> bool" where
  "truthy_looked Undefined = False"
| "truthy_looked (Own v) = truthy v"
| "truthy_looked (Native n) = True"

fun same_value :: "looked \<Rightarrow> looked \<Rightarrow> bool" where
  "same_value Undefined Undefined = True"
| "same_value (Own a) (Own b) = strict_eq (Some a) (Some b)"
| "same_value (Native a) (Native b) = (a = b)"
| "same_value a b = False"

text \<open>
  What \<^verbatim>\<open>String(value)\<close>, \<^verbatim>\<open>Number(value)\<close>, a comparison and a template literal see
  of a value: an inherited member is converted to its text first, as any object is.
\<close>

fun coerced :: "host \<Rightarrow> looked \<Rightarrow> jsval option" where
  "coerced h Undefined = None"
| "coerced h (Own v) = Some v"
| "coerced h (Native n) = Some (JStr (native_to_str h n))"

text \<open>The value as a message interpolates it.\<close>

definition shown :: "host \<Rightarrow> looked \<Rightarrow> jsval" where
  "shown h value = (case coerced h value of Some v \<Rightarrow> v | None \<Rightarrow> JStr ''undefined'')"

text \<open>An array, an object or an inherited member: what \<^verbatim>\<open>isPrototypeOf\<close> takes as an object.\<close>

fun is_object :: "looked \<Rightarrow> bool" where
  "is_object (Own (JArr xs)) = True"
| "is_object (Own (JObj ps)) = True"
| "is_object (Native n) = True"
| "is_object v = False"

text \<open>
  \<^verbatim>\<open>validators.types[t]\<close> applied to a value that is neither \<^verbatim>\<open>undefined\<close> nor
  \<^verbatim>\<open>null\<close>: \<open>None\<close> when the table has no member \<open>t\<close>, the TypeError when the member
  throws, and otherwise whether the value passes. \<^verbatim>\<open>RegExp.test\<close>, \<^verbatim>\<open>Date.parse\<close> and
  \<^verbatim>\<open>JSON.parse\<close> turn their argument into a string first. The table inherits from
  \<^verbatim>\<open>Object.prototype\<close> too, and the validator is called with no receiver:
  \<^verbatim>\<open>constructor\<close> and \<^verbatim>\<open>toString\<close> return an object and a non-empty string,
  \<^verbatim>\<open>isPrototypeOf\<close> returns \<^verbatim>\<open>false\<close> for a primitive, and every other call is a
  TypeError.
\<close>

definition type_validator :: "host \<Rightarrow> string \<Rightarrow> looked \<Rightarrow> (error + bool) option" where
  "type_validator h t value =
     (if t = ''text'' \<or> t = ''string'' then Some (Inr (looked_typeof value = ''string''))
      else if t = ''int'' \<or> t = ''integer'' then
        Some (Inr (is_integer (to_number_opt h (coerced h value))))
      else if t = ''float'' \<or> t = ''number'' then
        Some (Inr (to_number_opt h (coerced h value) \<noteq> NaN))
      else if t = ''boolean'' then
        Some (Inr (looked_typeof value = ''boolean'' \<or>
                   to_string_opt h (coerced h value) \<in> set [''true'', ''false'', ''1'', ''0'']))
      else if t = ''uuid'' then Some (Inr (is_uuid (to_string_opt h (coerced h value))))
      else if t = ''timestamp'' \<or> t = ''date'' then
        Some (Inr (date_parse h (to_string_opt h (coerced h value)) \<noteq> NaN))
      else if t = ''json'' then
        Some (Inr (json_parse h (to_string_opt h (coerced h value)) \<noteq> None))
      else if t = ''constructor'' \<or> t = ''toString'' then Some (Inr True)
      else if t = ''isPrototypeOf'' then
        Some (if is_object value then Inl TypeError else Inr False)
      else if t \<in> set object_prototype_names then Some (Inl TypeError)
      else None)"

text \<open>\<^verbatim>\<open>definition.k\<close> for a definition that is not \<^verbatim>\<open>null\<close>.\<close>

definition def_prop :: "jsval \<Rightarrow> string \<Rightarrow> jsval option" where
  "def_prop d k = (case read_prop d k of Some r \<Rightarrow> r | None \<Rightarrow> None)"

text \<open>\<^verbatim>\<open>!existingRows.some(r => r.id === row.id)\<close>.\<close>

definition isNew :: "jsobj \<Rightarrow> jsobj list \<Rightarrow> bool" where
  "isNew row existingRows =
     (\<not> list_ex (\<lambda>r. strict_eq (getp r ''id'') (getp row ''id'')) existingRows)"

text \<open>\<^verbatim>\<open>existingRows.map(r => r[column])\<close>, and \<^verbatim>\<open>includes\<close> on it.\<close>

definition existingValues :: "jsobj list \<Rightarrow> string \<Rightarrow> looked list" where
  "existingValues existingRows column = map (\<lambda>r. js_read r column) existingRows"

definition includes_value :: "looked list \<Rightarrow> looked \<Rightarrow> bool" where
  "includes_value xs v = list_ex (\<lambda>x. same_value x v) xs"

text \<open>
  The checks of one iteration of the loop over the schema, one function each, in the
  order of the source. Each gives the violations it pushes. The type check raises the
  TypeError of a validator that throws.
\<close>

definition check_type ::
  "host \<Rightarrow> string \<Rightarrow> jsval \<Rightarrow> looked \<Rightarrow> error + violation list" where
  "check_type h column d value =
     (case def_prop d ''type'' of
        Some t \<Rightarrow>
          (if truthy t \<and> present value then
             (case type_validator h (to_string h t) value of
                Some (Inl e) \<Rightarrow> Inl e
              | Some (Inr passes) \<Rightarrow>
                  Inr (if \<not> passes then [BadType column t (looked_typeof value)] else [])
              | None \<Rightarrow> Inr [])
           else Inr [])
      | None \<Rightarrow> Inr [])"

definition check_required :: "string \<Rightarrow> jsval \<Rightarrow> looked \<Rightarrow> violation list" where
  "check_required column d value =
     (if truthy_opt (def_prop d ''required'') \<and> \<not> present value
      then [IsRequired column] else [])"

definition check_unique ::
  "host \<Rightarrow> jsobj \<Rightarrow> jsobj list \<Rightarrow> string \<Rightarrow> jsval \<Rightarrow> looked \<Rightarrow> violation list" where
  "check_unique h row existingRows column d value =
     (if truthy_opt (def_prop d ''unique'') \<and> present value then
        (if includes_value (existingValues existingRows column) value \<and> isNew row existingRows
         then [NotUnique column (shown h value)] else [])
      else [])"

definition check_min :: "host \<Rightarrow> string \<Rightarrow> jsval \<Rightarrow> looked \<Rightarrow> violation list" where
  "check_min h column d value =
     (case def_prop d ''min'' of
        Some m \<Rightarrow>
          (if present value \<and> js_lt h (coerced h value) (Some m)
           then [BelowMin column (shown h value) m] else [])
      | None \<Rightarrow> [])"

definition check_max :: "host \<Rightarrow> string \<Rightarrow> jsval \<Rightarrow> looked \<Rightarrow> violation list" where
  "check_max h column d value =
     (case def_prop d ''max'' of
        Some m \<Rightarrow>
          (if present value \<and> js_gt h (coerced h value) (Some m)
           then [AboveMax column (shown h value) m] else [])
      | None \<Rightarrow> [])"

text \<open>\<^verbatim>\<open>String(value).length\<close>, as a number.\<close>

definition string_length :: "host \<Rightarrow> looked \<Rightarrow> nat" where
  "string_length h value = length (to_string_opt h (coerced h value))"

definition check_minLength :: "host \<Rightarrow> string \<Rightarrow> jsval \<Rightarrow> looked \<Rightarrow> violation list" where
  "check_minLength h column d value =
     (case def_prop d ''minLength'' of
        Some m \<Rightarrow>
          (if present value \<and>
              js_lt h (Some (JNum (of_nat (string_length h value)))) (Some m)
           then [TooShort column (string_length h value) m] else [])
      | None \<Rightarrow> [])"

definition check_maxLength :: "host \<Rightarrow> string \<Rightarrow> jsval \<Rightarrow> looked \<Rightarrow> violation list" where
  "check_maxLength h column d value =
     (case def_prop d ''maxLength'' of
        Some m \<Rightarrow>
          (if present value \<and>
              js_gt h (Some (JNum (of_nat (string_length h value)))) (Some m)
           then [TooLong column (string_length h value) m] else [])
      | None \<Rightarrow> [])"

text \<open>The pattern check raises the SyntaxError of \<^verbatim>\<open>new RegExp\<close>.\<close>

definition check_pattern ::
  "host \<Rightarrow> string \<Rightarrow> jsval \<Rightarrow> looked \<Rightarrow> error + violation list" where
  "check_pattern h column d value =
     (case def_prop d ''pattern'' of
        Some p \<Rightarrow>
          (if truthy p \<and> present value then
             (case regexp_test h (to_string h p) (to_string_opt h (coerced h value)) of
                None \<Rightarrow> Inl SyntaxError
              | Some matches \<Rightarrow>
                  Inr (if \<not> matches then [PatternMismatch column (shown h value) p] else []))
           else Inr [])
      | None \<Rightarrow> Inr [])"

text \<open>
  \<^verbatim>\<open>validatedRow[column] = definition.default\<close> when the read of the row gave
  \<^verbatim>\<open>undefined\<close>. A table is loaded from JSON, where no default is a function.
\<close>

definition apply_default :: "string \<Rightarrow> jsval \<Rightarrow> looked \<Rightarrow> jsobj \<Rightarrow> jsobj" where
  "apply_default column d value validatedRow =
     (case def_prop d ''default'' of
        Some dv \<Rightarrow> (if value = Undefined then setp validatedRow column dv else validatedRow)
      | None \<Rightarrow> validatedRow)"

text \<open>
  The body of the loop for one column: \<^verbatim>\<open>definition.type\<close> on a \<^verbatim>\<open>null\<close> definition
  is a TypeError; otherwise the violations of the eight checks, in the order of the
  source. The type check and the pattern check can raise, the type check first, and an
  error discards what was pushed before it.
\<close>

definition check_column ::
  "host \<Rightarrow> jsobj \<Rightarrow> jsobj list \<Rightarrow> string \<Rightarrow> jsval \<Rightarrow> error + violation list" where
  "check_column h row existingRows column d =
     (let value = js_read row column in
      if d = JNull then Inl TypeError
      else
        (case check_type h column d value of
           Inl e \<Rightarrow> Inl e
         | Inr type_errors \<Rightarrow>
             (case check_pattern h column d value of
                Inl e \<Rightarrow> Inl e
              | Inr pattern_errors \<Rightarrow>
                  Inr (type_errors @
                       check_required column d value @
                       check_unique h row existingRows column d value @
                       check_min h column d value @
                       check_max h column d value @
                       check_minLength h column d value @
                       check_maxLength h column d value @
                       pattern_errors))))"

fun validate_columns ::
  "host \<Rightarrow> jsobj \<Rightarrow> jsobj list \<Rightarrow> jsobj \<Rightarrow> violation list \<Rightarrow> jsobj
     \<Rightarrow> error + (violation list \<times> jsobj)" where
  "validate_columns h row existingRows [] errors validatedRow = Inr (errors, validatedRow)"
| "validate_columns h row existingRows ((column, d) # schema) errors validatedRow =
     (case check_column h row existingRows column d of
        Inl e \<Rightarrow> Inl e
      | Inr es \<Rightarrow>
          validate_columns h row existingRows schema (errors @ es)
            (apply_default column d (js_read row column) validatedRow))"

text \<open>
  The loop over \<^verbatim>\<open>Object.keys(row)\<close>: the fields for which \<^verbatim>\<open>schema[field]\<close> is
  falsy. An inherited member is truthy, so a field with such a name is never reported.
\<close>

definition extra_fields :: "jsobj \<Rightarrow> jsobj \<Rightarrow> violation list" where
  "extra_fields row schema =
     map ExtraField
       (filter (\<lambda>field. \<not> truthy_looked (js_read schema field) \<and> field \<noteq> ''id'')
          (map fst row))"

definition validateRow :: "host \<Rightarrow> jsobj \<Rightarrow> jsobj \<Rightarrow> jsobj list \<Rightarrow> error + jsobj" where
  "validateRow h row schema existingRows =
     (case validate_columns h row existingRows schema [] row of
        Inl e \<Rightarrow> Inl e
      | Inr (errors, validatedRow) \<Rightarrow>
          (let errors' = errors @ extra_fields row schema in
           if errors' \<noteq> [] then Inl (ValidationFailed errors') else Inr validatedRow))"

section \<open>Tables and the database directory\<close>

text \<open>
  The persisted unit of a table, as \<^verbatim>\<open>createTable\<close> writes it. A relationship names a
  foreign table and a foreign key; the encryption options are a key and a list of fields,
  each of which may be missing (\<^verbatim>\<open>options.encryption || {}\<close>).
\<close>

record relationship =
  foreignTable :: string
  foreignKey :: string

record encryption_options =
  enc_key :: "string option"
  enc_fields :: "string list option"

record index_definition =
  index_type :: string
  index_unique :: bool
  index_createdAt :: string
  index_data :: "(string \<times> nat list) list option"

record table =
  name :: string
  createdAt :: string
  columns :: jsobj
  relationships :: "(string \<times> relationship) list"
  rows :: "jsobj list"
  indexes :: "(string \<times> index_definition) list"
  encryption :: encryption_options
  timestamps :: bool

text \<open>
  The state of the module: whether \<^verbatim>\<open>currentDbPath\<close> is set, the \<^verbatim>\<open>.table\<close> files of
  that directory in the order \<^verbatim>\<open>readdirSync\<close> lists them, each under its table name,
  and the counter that indexes the host's \<open>uuidv4\<close> and \<open>now\<close>.
\<close>

record db_state =
  selected :: bool
  files :: "(string \<times> table) list"
  calls :: nat

text \<open>\<^verbatim>\<open>fs.existsSync\<close>, \<^verbatim>\<open>JSON.parse(fs.readFileSync(...))\<close> and \<^verbatim>\<open>fs.writeFileSync\<close>.\<close>

fun read_table :: "(string \<times> table) list \<Rightarrow> string \<Rightarrow> table option" where
  "read_table [] n = None"
| "read_table ((n', t) # fs) n = (if n' = n then Some t else read_table fs n)"

fun write_table :: "(string \<times> table) list \<Rightarrow> string \<Rightarrow> table \<Rightarrow> (string \<times> table) list" where
  "write_table [] n t = [(n, t)]"
| "write_table ((n', t') # fs) n t =
     (if n' = n then (n, t) # fs else (n', t') # write_table fs n t)"

section \<open>Field encryption\<close>

text \<open>\<^verbatim>\<open>!key\<close>: the key is missing or the empty string.\<close>

fun no_key :: "string option \<Rightarrow> bool" where
  "no_key None = True"
| "no_key (Some k) = (k = [])"

definition encryptField :: "host \<Rightarrow> jsval \<Rightarrow> string option \<Rightarrow> jsval" where
  "encryptField h v k =
     (if no_key k then v
      else
        (case cipher_encrypt h (the k) (json_stringify h v) of
           Some encrypted \<Rightarrow> JObj [(''encrypted'', JBool True), (''data'', JStr encrypted)]
         | None \<Rightarrow> v))"

text \<open>
  \<^verbatim>\<open>encryptedObj.encrypted\<close> on \<^verbatim>\<open>null\<close> is a TypeError, outside the \<^verbatim>\<open>try\<close>. Inside it,
  a \<^verbatim>\<open>data\<close> that is no string makes \<^verbatim>\<open>decipher.update\<close> throw, and every throw gives
  the argument back.
\<close>

definition decryptField :: "host \<Rightarrow> jsval \<Rightarrow> string option \<Rightarrow> error + jsval" where
  "decryptField h encryptedObj k =
     (case read_prop encryptedObj ''encrypted'' of
        None \<Rightarrow> Inl TypeError
      | Some e \<Rightarrow>
          (if \<not> truthy_opt e \<or> no_key k then Inr encryptedObj
           else
             (case def_prop encryptedObj ''data'' of
                Some (JStr d) \<Rightarrow>
                  (case cipher_decrypt h (the k) d of
                     Some decrypted \<Rightarrow>
                       (case json_parse h decrypted of
                          Some v \<Rightarrow> Inr v
                        | None \<Rightarrow> Inr encryptedObj)
                   | None \<Rightarrow> Inr encryptedObj)
              | _ \<Rightarrow> Inr encryptedObj)))"

section \<open>createTable\<close>

record create_options =
  opt_encryption :: "encryption_options option"
  opt_timestamps :: "bool option"

text \<open>
  The loop that normalises the column definitions: a string becomes \<^verbatim>\<open>{ type: s }\<close>,
  anything whose \<^verbatim>\<open>typeof\<close> is \<^verbatim>\<open>'object'\<close> stays, anything else is an error.
\<close>

fun normalize_columns :: "jsobj \<Rightarrow> jsobj \<Rightarrow> error + jsobj" where
  "normalize_columns [] normalizedColumns = Inr normalizedColumns"
| "normalize_columns ((colName, colDef) # cs) normalizedColumns =
     (case colDef of
        JStr s \<Rightarrow> normalize_columns cs (setp normalizedColumns colName (JObj [(''type'', JStr s)]))
      | JBool b \<Rightarrow> Inl (InvalidColumnDefinition colName)
      | JNum q \<Rightarrow> Inl (InvalidColumnDefinition colName)
      | _ \<Rightarrow> normalize_columns cs (setp normalizedColumns colName colDef))"

definition createTable ::
  "host \<Rightarrow> db_state \<Rightarrow> string \<Rightarrow> jsobj \<Rightarrow> (string \<times> relationship) list \<Rightarrow> create_options
     \<Rightarrow> (error + unit) \<times> db_state" where
  "createTable h st tableName cols rels options =
     (if \<not> selected st then (Inl CallUseFirst, st)
      else if tableName = [] then (Inl TableNameRequired, st)
      else if read_table (files st) tableName \<noteq> None then (Inl (TableExists tableName), st)
      else
        (case normalize_columns cols [] of
           Inl e \<Rightarrow> (Inl e, st)
         | Inr normalizedColumns \<Rightarrow>
             (let normalizedColumns' =
                    (if \<not> truthy_opt (getp normalizedColumns ''id'')
                     then setp normalizedColumns ''id''
                            (JObj [(''type'', JStr ''uuid''), (''required'', JBool True)])
                     else normalizedColumns);
                  tableData = \<lparr> name = tableName,
                                createdAt = now h (calls st),
                                columns = normalizedColumns',
                                relationships = rels,
                                rows = [],
                                indexes = [],
                                encryption =
                                  (case opt_encryption options of
                                     Some e \<Rightarrow> e
                                   | None \<Rightarrow> \<lparr> enc_key = None, enc_fields = None \<rparr>),
                                timestamps = (opt_timestamps options \<noteq> Some False) \<rparr>
              in (Inr (),
                  st \<lparr> files := write_table (files st) tableName tableData,
                       calls := Suc (calls st) \<rparr>))))"

section \<open>insert and insertMany\<close>

text \<open>The loop over \<^verbatim>\<open>table.relationships\<close> that checks the foreign keys.\<close>

fun check_foreign_keys ::
  "(string \<times> table) list \<Rightarrow> jsobj \<Rightarrow> (string \<times> relationship) list \<Rightarrow> error option" where
  "check_foreign_keys fs validatedRow [] = None"
| "check_foreign_keys fs validatedRow ((field, rel) # rels) =
     (if getp validatedRow field \<noteq> None then
        (case read_table fs (foreignTable rel) of
           None \<Rightarrow> Some (ForeignTableMissing (foreignTable rel))
         | Some foreignTableData \<Rightarrow>
             (if list_ex (\<lambda>row. strict_eq (getp row (foreignKey rel)) (getp validatedRow field))
                   (rows foreignTableData)
              then check_foreign_keys fs validatedRow rels
              else Some (ForeignKeyViolation field (getp validatedRow field) (foreignTable rel))))
      else check_foreign_keys fs validatedRow rels)"

text \<open>The loop over \<^verbatim>\<open>table.options.encryption.fields\<close> of \<^verbatim>\<open>insert\<close>.\<close>

fun encrypt_fields :: "host \<Rightarrow> string option \<Rightarrow> string list \<Rightarrow> jsobj \<Rightarrow> jsobj" where
  "encrypt_fields h k [] validatedRow = validatedRow"
| "encrypt_fields h k (field # fs) validatedRow =
     encrypt_fields h k fs
       (case getp validatedRow field of
          Some v \<Rightarrow> setp validatedRow field (encryptField h v k)
        | None \<Rightarrow> validatedRow)"

text \<open>\<^verbatim>\<open>if (!row[k]) row[k] = v\<close>.\<close>

definition set_if_falsy :: "jsobj \<Rightarrow> string \<Rightarrow> jsval \<Rightarrow> jsobj" where
  "set_if_falsy row k v = (if \<not> truthy_opt (getp row k) then setp row k v else row)"

text \<open>
  The steps of \<^verbatim>\<open>insert\<close> between validation and the foreign-key check: the generated
  id, then the timestamps.
\<close>

definition generate_id :: "host \<Rightarrow> nat \<Rightarrow> table \<Rightarrow> jsobj \<Rightarrow> jsobj" where
  "generate_id h n t validatedRow =
     (case getp (columns t) ''id'' of
        Some d \<Rightarrow>
          (if truthy d \<and> strict_eq (def_prop d ''type'') (Some (JStr ''uuid''))
              \<and> \<not> truthy_opt (getp validatedRow ''id'')
           then setp validatedRow ''id'' (JStr (uuidv4 h n))
           else validatedRow)
      | None \<Rightarrow> validatedRow)"

definition add_timestamps :: "host \<Rightarrow> nat \<Rightarrow> table \<Rightarrow> jsobj \<Rightarrow> jsobj" where
  "add_timestamps h n t validatedRow =
     (if timestamps t then
        set_if_falsy (set_if_falsy validatedRow ''createdAt'' (JStr (now h n)))
          ''updatedAt'' (JStr (now h n))
      else validatedRow)"

definition insert_row ::
  "host \<Rightarrow> db_state \<Rightarrow> string \<Rightarrow> jsobj \<Rightarrow> (error + jsobj) \<times> db_state" where
  "insert_row h st tableName rowData =
     (if \<not> selected st then (Inl NoDatabaseSelected, st)
      else
        (case read_table (files st) tableName of
           None \<Rightarrow> (Inl (TableNotFound tableName), st)
         | Some t \<Rightarrow>
             (case validateRow h rowData (columns t) (rows t) of
                Inl e \<Rightarrow> (Inl e, st)
              | Inr validatedRow \<Rightarrow>
                  (let row1 = generate_id h (calls st) t validatedRow;
                       row2 = add_timestamps h (calls st) t row1
                   in case check_foreign_keys (files st) row2 (relationships t) of
                        Some e \<Rightarrow> (Inl e, st)
                      | None \<Rightarrow>
                          (let row3 =
                                 (case enc_fields (encryption t) of
                                    Some fs \<Rightarrow> encrypt_fields h (enc_key (encryption t)) fs row2
                                  | None \<Rightarrow> row2)
                           in (Inr row3,
                               st \<lparr> files :=
                                      write_table (files st) tableName
                                        (t \<lparr> rows := rows t @ [row3] \<rparr>),
                                    calls := Suc (calls st) \<rparr>))))))"

text \<open>
  \<^verbatim>\<open>insertMany\<close>: the loop awaits each \<^verbatim>\<open>insert\<close> before the next; an error of one of
  them leaves the loop, and \<^verbatim>\<open>insertMany\<close>, with that error.
\<close>

fun insertMany_loop ::
  "host \<Rightarrow> db_state \<Rightarrow> string \<Rightarrow> jsobj list \<Rightarrow> jsobj list
     \<Rightarrow> (error + jsobj list) \<times> db_state" where
  "insertMany_loop h st tableName [] results = (Inr results, st)"
| "insertMany_loop h st tableName (rowData # rowsData) results =
     (case insert_row h st tableName rowData of
        (Inl e, st') \<Rightarrow> (Inl e, st')
      | (Inr result, st') \<Rightarrow> insertMany_loop h st' tableName rowsData (results @ [result]))"

definition insertMany ::
  "host \<Rightarrow> db_state \<Rightarrow> string \<Rightarrow> jsobj list \<Rightarrow> (error + jsobj list) \<times> db_state" where
  "insertMany h st tableName rowsData = insertMany_loop h st tableName rowsData []"

section \<open>select\<close>

record join_spec =
  join_table :: string
  on_local :: string
  on_foreign :: string
  join_as :: "string option"
  join_type :: "string option"

record select_options =
  opt_where :: "jsobj option"
  opt_join :: "join_spec list option"
  opt_orderBy :: "(string \<times> string option) option"
  opt_limit :: "int option"
  opt_offset :: "int option"
  opt_fields :: "string list option"

text \<open>
  The decryption stage: a field is decrypted when it holds an object whose
  \<^verbatim>\<open>encrypted\<close> property is truthy. \<^verbatim>\<open>_decryptField\<close> cannot raise there.
\<close>

fun decrypt_fields :: "host \<Rightarrow> string option \<Rightarrow> string list \<Rightarrow> jsobj \<Rightarrow> jsobj" where
  "decrypt_fields h k [] decrypted = decrypted"
| "decrypt_fields h k (field # fs) decrypted =
     decrypt_fields h k fs
       (case getp decrypted field of
          Some (JObj ps) \<Rightarrow>
            (if truthy_opt (getp ps ''encrypted'') then
               (case decryptField h (JObj ps) k of
                  Inr v \<Rightarrow> setp decrypted field v
                | Inl e \<Rightarrow> decrypted)
             else decrypted)
        | _ \<Rightarrow> decrypted)"

definition decrypt_rows :: "host \<Rightarrow> table \<Rightarrow> jsobj list" where
  "decrypt_rows h t =
     (case enc_fields (encryption t) of
        Some fs \<Rightarrow> map (decrypt_fields h (enc_key (encryption t)) fs) (rows t)
      | None \<Rightarrow> rows t)"

text \<open>
  \<^verbatim>\<open>Array.prototype.every\<close> and \<^verbatim>\<open>filter\<close> with a callback that can raise: \<^verbatim>\<open>every\<close>
  stops at the first \<^verbatim>\<open>false\<close>, and an error leaves both.
\<close>

fun every_e :: "('a \<Rightarrow> error + bool) \<Rightarrow> 'a list \<Rightarrow> error + bool" where
  "every_e f [] = Inr True"
| "every_e f (x # xs) =
     (case f x of
        Inl e \<Rightarrow> Inl e
      | Inr b \<Rightarrow> (if b then every_e f xs else Inr False))"

fun filter_e :: "('a \<Rightarrow> error + bool) \<Rightarrow> 'a list \<Rightarrow> error + 'a list" where
  "filter_e f [] = Inr []"
| "filter_e f (x # xs) =
     (case f x of
        Inl e \<Rightarrow> Inl e
      | Inr b \<Rightarrow>
          (case filter_e f xs of
             Inl e \<Rightarrow> Inl e
           | Inr ys \<Rightarrow> Inr (if b then x # ys else ys)))"

text \<open>\<^verbatim>\<open>String.prototype.includes\<close>.\<close>

fun starts_with :: "string \<Rightarrow> string \<Rightarrow> bool" where
  "starts_with s [] = True"
| "starts_with [] (c # cs) = False"
| "starts_with (d # ds) (c # cs) = (d = c \<and> starts_with ds cs)"

fun str_includes :: "string \<Rightarrow> string \<Rightarrow> bool" where
  "str_includes [] needle = (needle = [])"
| "str_includes (c # cs) needle = (starts_with (c # cs) needle \<or> str_includes cs needle)"

text \<open>
  One operator of a condition object, on the row's value \<open>rv\<close>. The default case
  compares the row's value with the condition object itself.
\<close>

definition match_operator ::
  "host \<Rightarrow> jsval option \<Rightarrow> jsval \<Rightarrow> string \<times> jsval \<Rightarrow> error + bool" where
  "match_operator h rv condition ov =
     (let operator = fst ov; v = snd ov in
      if operator = ''$eq'' then Inr (strict_eq rv (Some v))
      else if operator = ''$ne'' then Inr (\<not> strict_eq rv (Some v))
      else if operator = ''$gt'' then Inr (js_gt h rv (Some v))
      else if operator = ''$gte'' then Inr (js_ge h rv (Some v))
      else if operator = ''$lt'' then Inr (js_lt h rv (Some v))
      else if operator = ''$lte'' then Inr (js_le h rv (Some v))
      else if operator = ''$in'' then
        Inr (case v of JArr xs \<Rightarrow> js_includes (map Some xs) rv | _ \<Rightarrow> False)
      else if operator = ''$nin'' then
        Inr (case v of JArr xs \<Rightarrow> \<not> js_includes (map Some xs) rv | _ \<Rightarrow> False)
      else if operator = ''$like'' then
        Inr (str_includes (to_string_opt h rv) (to_string h v))
      else if operator = ''$regex'' then
        (case regexp_test h (to_string h v) (to_string_opt h rv) of
           None \<Rightarrow> Inl SyntaxError
         | Some b \<Rightarrow> Inr b)
      else Inr (strict_eq rv (Some condition)))"

text \<open>One entry of \<^verbatim>\<open>options.where\<close> on one row.\<close>

definition match_condition :: "host \<Rightarrow> jsobj \<Rightarrow> string \<times> jsval \<Rightarrow> error + bool" where
  "match_condition h row kc =
     (let rv = getp row (fst kc); condition = snd kc in
      case condition of
        JNull \<Rightarrow> Inr (strict_eq rv (Some condition))
      | JObj ops \<Rightarrow> every_e (match_operator h rv condition) ops
      | JArr xs \<Rightarrow> Inr (js_includes (map Some xs) rv)
      | _ \<Rightarrow> Inr (strict_eq rv (Some condition)))"

definition select_where :: "host \<Rightarrow> jsobj option \<Rightarrow> jsobj list \<Rightarrow> error + jsobj list" where
  "select_where h w rs =
     (case w of
        Some conds \<Rightarrow> filter_e (\<lambda>row. every_e (match_condition h row) conds) rs
      | None \<Rightarrow> Inr rs)"

text \<open>
  One join on the loaded rows of the target table: the callback of \<^verbatim>\<open>rows.map\<close> gives
  \<^verbatim>\<open>null\<close> (here \<open>None\<close>) or the row with the related rows under the alias, and
  \<^verbatim>\<open>filter\<close> removes the \<^verbatim>\<open>null\<close>s.
\<close>

definition join_row :: "join_spec \<Rightarrow> jsobj list \<Rightarrow> jsobj \<Rightarrow> jsobj option" where
  "join_row j joinRows row =
     (let as = (case join_as j of Some a \<Rightarrow> a | None \<Rightarrow> join_table j);
          type = (case join_type j of Some ty \<Rightarrow> ty | None \<Rightarrow> ''left'');
          related =
            filter (\<lambda>jrow. strict_eq (getp jrow (on_foreign j)) (getp row (on_local j))) joinRows
      in if type = ''inner'' \<and> length related = 0 then None
         else Some (setp row as
                (if length related > 0
                 then (if length related = 1 then JObj (related ! 0)
                       else JArr (map JObj related))
                 else JNull)))"

definition join_rows :: "join_spec \<Rightarrow> jsobj list \<Rightarrow> jsobj list \<Rightarrow> jsobj list" where
  "join_rows j joinRows rs =
     map the (filter (\<lambda>r. r \<noteq> None) (map (join_row j joinRows) rs))"

text \<open>
  The loop over \<^verbatim>\<open>options.join\<close>: a missing table ends the loop with no rows for an
  inner join (\<^verbatim>\<open>break\<close>) and skips the join otherwise (\<^verbatim>\<open>continue\<close>).
\<close>

fun select_joins :: "(string \<times> table) list \<Rightarrow> join_spec list \<Rightarrow> jsobj list \<Rightarrow> jsobj list" where
  "select_joins fs [] rs = rs"
| "select_joins fs (j # js) rs =
     (case read_table fs (join_table j) of
        None \<Rightarrow>
          (if (case join_type j of Some ty \<Rightarrow> ty | None \<Rightarrow> ''left'') = ''inner'' then []
           else select_joins fs js rs)
      | Some joinData \<Rightarrow> select_joins fs js (join_rows j (rows joinData) rs))"

definition select_join ::
  "(string \<times> table) list \<Rightarrow> join_spec list option \<Rightarrow> jsobj list \<Rightarrow> jsobj list" where
  "select_join fs js rs = (case js of Some l \<Rightarrow> select_joins fs l rs | None \<Rightarrow> rs)"

text \<open>The comparator of the sort, and the sort itself, which is the host's.\<close>

definition absent_or_null :: "jsval option \<Rightarrow> bool" where
  "absent_or_null v = (v = None \<or> v = Some JNull)"

definition compare_rows :: "host \<Rightarrow> string \<Rightarrow> string \<Rightarrow> jsobj \<Rightarrow> jsobj \<Rightarrow> int" where
  "compare_rows h field direction a b =
     (let aVal = getp a field; bVal = getp b field in
      if strict_eq aVal bVal then 0
      else if absent_or_null aVal then (if direction = ''asc'' then - 1 else 1)
      else if absent_or_null bVal then (if direction = ''asc'' then 1 else - 1)
      else
        (let comparison = (if js_lt h aVal bVal then - 1 else 1)
         in if direction = ''asc'' then comparison else - comparison))"

definition select_sort ::
  "host \<Rightarrow> (string \<times> string option) option \<Rightarrow> jsobj list \<Rightarrow> jsobj list" where
  "select_sort h orderBy rs =
     (case orderBy of
        Some (field, d) \<Rightarrow>
          array_sort h
            (compare_rows h field (case d of Some direction \<Rightarrow> direction | None \<Rightarrow> ''asc'')) rs
      | None \<Rightarrow> rs)"

text \<open>
  \<^verbatim>\<open>Array.prototype.slice(start, end)\<close> on integers: a negative index counts from the
  end, and both are clamped to the length.
\<close>

definition slice_index :: "nat \<Rightarrow> int \<Rightarrow> nat" where
  "slice_index len i = (if i < 0 then nat (max (int len + i) 0) else min (nat i) len)"

definition js_slice :: "'a list \<Rightarrow> int \<Rightarrow> int \<Rightarrow> 'a list" where
  "js_slice xs start end' =
     (let k = slice_index (length xs) start; final = slice_index (length xs) end'
      in take (final - k) (drop k xs))"

text \<open>Truthiness of an optional number, and \<^verbatim>\<open>n || d\<close>.\<close>

definition truthy_num :: "int option \<Rightarrow> bool" where
  "truthy_num n = (case n of Some x \<Rightarrow> x \<noteq> 0 | None \<Rightarrow> False)"

definition or_default :: "int option \<Rightarrow> int \<Rightarrow> int" where
  "or_default n d = (if truthy_num n then the n else d)"

definition select_paginate :: "int option \<Rightarrow> int option \<Rightarrow> jsobj list \<Rightarrow> jsobj list" where
  "select_paginate limit_opt offset_opt rs =
     (if truthy_num limit_opt \<or> truthy_num offset_opt then
        (let offset = or_default offset_opt 0;
             limit = or_default limit_opt (int (length rs))
         in js_slice rs offset (offset + limit))
      else rs)"

definition select_fields :: "string list option \<Rightarrow> jsobj list \<Rightarrow> jsobj list" where
  "select_fields fs rs =
     (case fs of
        Some l \<Rightarrow>
          map (\<lambda>row. foldl (\<lambda>selected field.
                        case getp row field of
                          Some v \<Rightarrow> setp selected field v
                        | None \<Rightarrow> selected) [] l) rs
      | None \<Rightarrow> rs)"

definition select ::
  "host \<Rightarrow> db_state \<Rightarrow> string \<Rightarrow> select_options \<Rightarrow> error + jsobj list" where
  "select h st tableName options =
     (if \<not> selected st then Inl NoDatabaseSelected
      else
        (case read_table (files st) tableName of
           None \<Rightarrow> Inl (TableNotFound tableName)
         | Some t \<Rightarrow>
             (case select_where h (opt_where options) (decrypt_rows h t) of
                Inl e \<Rightarrow> Inl e
              | Inr filtered \<Rightarrow>
                  Inr (select_fields (opt_fields options)
                        (select_paginate (opt_limit options) (opt_offset options)
                          (select_sort h (opt_orderBy options)
                            (select_join (files st) (opt_join options) filtered)))))))"

section \<open>update\<close>

text \<open>\<^verbatim>\<open>Object.keys(where).every(k => row[k] === where[k])\<close>.\<close>

definition row_matches :: "jsobj \<Rightarrow> jsobj \<Rightarrow> bool" where
  "row_matches wher row = list_all (\<lambda>k. strict_eq (getp row k) (getp wher k)) (map fst wher)"

text \<open>
  \<^verbatim>\<open>table.rows.filter(r => r.id !== row.id)\<close> for the row at position \<open>i\<close>: the row
  itself always goes (its id is the same reference), and so does every other row whose
  id is strictly equal.
\<close>

definition other_rows :: "jsobj list \<Rightarrow> nat \<Rightarrow> jsobj list" where
  "other_rows rs i =
     map snd (filter (\<lambda>jr. fst jr \<noteq> i \<and> \<not> strict_eq (getp (snd jr) ''id'') (getp (rs ! i) ''id''))
                (enumerate 0 rs))"

text \<open>The loop that encrypts again the fields that are not encrypted.\<close>

fun reencrypt_fields :: "host \<Rightarrow> string option \<Rightarrow> string list \<Rightarrow> jsobj \<Rightarrow> jsobj" where
  "reencrypt_fields h k [] validatedRow = validatedRow"
| "reencrypt_fields h k (field # fs) validatedRow =
     reencrypt_fields h k fs
       (case getp validatedRow field of
          Some v \<Rightarrow>
            (if \<not> (truthy v \<and> truthy_opt (def_prop v ''encrypted''))
             then setp validatedRow field (encryptField h v k)
             else validatedRow)
        | None \<Rightarrow> validatedRow)"

text \<open>
  The callback of \<^verbatim>\<open>table.rows.map\<close> for the row at position \<open>i\<close>: \<open>Some\<close> the new row
  when the row matches and the merged row validates, \<open>None\<close> when the row stays (no
  match, or any error of the validation, which the \<^verbatim>\<open>catch\<close> swallows).
\<close>

definition update_row ::
  "host \<Rightarrow> nat \<Rightarrow> table \<Rightarrow> jsobj \<Rightarrow> jsobj \<Rightarrow> nat \<Rightarrow> jsobj \<Rightarrow> jsobj option" where
  "update_row h n t updates wher i row =
     (if row_matches wher row then
        (case validateRow h (spread row updates) (columns t) (other_rows (rows t) i) of
           Inl e \<Rightarrow> None
         | Inr validatedRow \<Rightarrow>
             (let row1 = (if timestamps t
                          then setp validatedRow ''updatedAt'' (JStr (now h (n + i)))
                          else validatedRow)
              in Some (case enc_fields (encryption t) of
                         Some fs \<Rightarrow> reencrypt_fields h (enc_key (encryption t)) fs row1
                       | None \<Rightarrow> row1)))
      else None)"

definition update ::
  "host \<Rightarrow> db_state \<Rightarrow> string \<Rightarrow> jsobj \<Rightarrow> jsobj \<Rightarrow> (error + nat \<times> jsobj list) \<times> db_state" where
  "update h st tableName updates wher =
     (if \<not> selected st then (Inl NoDatabaseSelected, st)
      else
        (case read_table (files st) tableName of
           None \<Rightarrow> (Inl (TableNotFound tableName), st)
         | Some t \<Rightarrow>
             (let results = map (\<lambda>ir. update_row h (calls st) t updates wher (fst ir) (snd ir))
                              (enumerate 0 (rows t));
                  newRows = map (\<lambda>rr. case snd rr of Some v \<Rightarrow> v | None \<Rightarrow> fst rr)
                              (zip (rows t) results);
                  updatedRows = map the (filter (\<lambda>r. r \<noteq> None) results);
                  updatedCount = length updatedRows
              in (Inr (updatedCount, updatedRows),
                  st \<lparr> files := (if updatedCount > 0
                                  then write_table (files st) tableName (t \<lparr> rows := newRows \<rparr>)
                                  else files st),
                       calls := calls st + length (rows t) \<rparr>))))"

section \<open>delete\<close>

text \<open>
  The inner loop of the cascade, over the relationships of one other table: a
  relationship to the deleted table filters the other table's rows and writes the file.
\<close>

fun cascade_relationships ::
  "string \<Rightarrow> jsobj list \<Rightarrow> string \<Rightarrow> (string \<times> relationship) list \<Rightarrow> table
     \<Rightarrow> (string \<times> table) list \<Rightarrow> (string \<times> table) list" where
  "cascade_relationships tableName rowsToDelete tableFile [] otherTable fs = fs"
| "cascade_relationships tableName rowsToDelete tableFile ((field, rel) # rels) otherTable fs =
     (if foreignTable rel = tableName then
        (let idsToDelete = map (\<lambda>r. getp r ''id'') rowsToDelete;
             otherTable' =
               otherTable \<lparr> rows := filter (\<lambda>row. \<not> js_includes idsToDelete (getp row field))
                                      (rows otherTable) \<rparr>
         in cascade_relationships tableName rowsToDelete tableFile rels otherTable'
              (write_table fs tableFile otherTable'))
      else cascade_relationships tableName rowsToDelete tableFile rels otherTable fs)"

text \<open>The outer loop, over the other table files of the directory.\<close>

fun cascade_tables ::
  "string \<Rightarrow> jsobj list \<Rightarrow> string list \<Rightarrow> (string \<times> table) list \<Rightarrow> (string \<times> table) list" where
  "cascade_tables tableName rowsToDelete [] fs = fs"
| "cascade_tables tableName rowsToDelete (tableFile # allTables) fs =
     cascade_tables tableName rowsToDelete allTables
       (case read_table fs tableFile of
          Some otherTable \<Rightarrow>
            cascade_relationships tableName rowsToDelete tableFile
              (relationships otherTable) otherTable fs
        | None \<Rightarrow> fs)"

definition delete ::
  "db_state \<Rightarrow> string \<Rightarrow> jsobj \<Rightarrow> bool \<Rightarrow> (error + nat \<times> jsobj list) \<times> db_state" where
  "delete st tableName wher cascade =
     (if \<not> selected st then (Inl NoDatabaseSelected, st)
      else
        (case read_table (files st) tableName of
           None \<Rightarrow> (Inl (TableNotFound tableName), st)
         | Some t \<Rightarrow>
             (let beforeCount = length (rows t);
                  rowsToDelete = filter (row_matches wher) (rows t);
                  fs1 = (if cascade then
                           cascade_tables tableName rowsToDelete
                             (filter (\<lambda>f. f \<noteq> tableName) (map fst (files st))) (files st)
                         else files st);
                  t' = t \<lparr> rows := filter (\<lambda>row. \<not> row_matches wher row) (rows t) \<rparr>
              in (Inr (beforeCount - length (rows t'), rowsToDelete),
                  st \<lparr> files := write_table fs1 tableName t' \<rparr>))))"

section \<open>Indexes, columns and migrations\<close>

text \<open>
  \<^verbatim>\<open>addIndex\<close>, \<^verbatim>\<open>addColumn\<close> and \<^verbatim>\<open>removeColumn\<close> have no guard: \<^verbatim>\<open>path.join\<close> raises a
  TypeError when no database is selected, and \<^verbatim>\<open>fs.readFileSync\<close> raises ENOENT when
  the file does not exist.
\<close>

record index_options =
  opt_type :: "string option"
  opt_unique :: "bool option"

text \<open>
  The hash index: for every row that has the field, its position is appended to the
  list under \<^verbatim>\<open>String(row[field])\<close>. The keys are kept in insertion order.
\<close>

fun index_lookup :: "(string \<times> nat list) list \<Rightarrow> string \<Rightarrow> nat list option" where
  "index_lookup [] k = None"
| "index_lookup ((k', v) # ps) k = (if k' = k then Some v else index_lookup ps k)"

fun index_store :: "(string \<times> nat list) list \<Rightarrow> string \<Rightarrow> nat list \<Rightarrow> (string \<times> nat list) list" where
  "index_store [] k v = [(k, v)]"
| "index_store ((k', v') # ps) k v =
     (if k' = k then (k, v) # ps else (k', v') # index_store ps k v)"

definition build_index :: "host \<Rightarrow> string \<Rightarrow> jsobj list \<Rightarrow> (string \<times> nat list) list" where
  "build_index h field rs =
     foldl (\<lambda>index ir.
              case getp (snd ir) field of
                Some v \<Rightarrow>
                  index_store index (to_string h v)
                    ((case index_lookup index (to_string h v) of Some l \<Rightarrow> l | None \<Rightarrow> [])
                       @ [fst ir])
              | None \<Rightarrow> index)
       [] (enumerate 0 rs)"

fun store_index ::
  "(string \<times> index_definition) list \<Rightarrow> string \<Rightarrow> index_definition
     \<Rightarrow> (string \<times> index_definition) list" where
  "store_index [] k v = [(k, v)]"
| "store_index ((k', v') # ps) k v =
     (if k' = k then (k, v) # ps else (k', v') # store_index ps k v)"

definition addIndex ::
  "host \<Rightarrow> db_state \<Rightarrow> string \<Rightarrow> string \<Rightarrow> index_options \<Rightarrow> (error + unit) \<times> db_state" where
  "addIndex h st tableName field options =
     (if \<not> selected st then (Inl TypeError, st)
      else
        (case read_table (files st) tableName of
           None \<Rightarrow> (Inl (ENOENT tableName), st)
         | Some t \<Rightarrow>
             (let ix = \<lparr> index_type =
                          (case opt_type options of
                             Some ty \<Rightarrow> (if ty \<noteq> [] then ty else ''value'')
                           | None \<Rightarrow> ''value''),
                        index_unique = (opt_unique options = Some True),
                        index_createdAt = now h (calls st),
                        index_data =
                          (if opt_type options = Some ''hash''
                           then Some (build_index h field (rows t)) else None) \<rparr>
              in (Inr (),
                  st \<lparr> files := write_table (files st) tableName
                                   (t \<lparr> indexes := store_index (indexes t) field ix \<rparr>),
                       calls := Suc (calls st) \<rparr>))))"

definition addColumn ::
  "db_state \<Rightarrow> string \<Rightarrow> string \<Rightarrow> jsval \<Rightarrow> (error + unit) \<times> db_state" where
  "addColumn st tableName columnName d =
     (if \<not> selected st then (Inl TypeError, st)
      else
        (case read_table (files st) tableName of
           None \<Rightarrow> (Inl (ENOENT tableName), st)
         | Some t \<Rightarrow>
             (if truthy_opt (getp (columns t) columnName) then (Inl (ColumnExists columnName), st)
              else
                (case read_prop d ''default'' of
                   None \<Rightarrow> (Inl TypeError, st)
                 | Some dv \<Rightarrow>
                     (let defaultValue = (case dv of Some v \<Rightarrow> v | None \<Rightarrow> JNull)
                      in (Inr (),
                          st \<lparr> files := write_table (files st) tableName
                                 (t \<lparr> columns :=
                                        setp (columns t) columnName
                                          (case d of
                                             JStr s \<Rightarrow> JObj [(''type'', JStr s)]
                                           | _ \<Rightarrow> d),
                                      rows :=
                                        map (\<lambda>row. setp row columnName defaultValue) (rows t) \<rparr>)
                             \<rparr>))))))"

definition removeColumn ::
  "db_state \<Rightarrow> string \<Rightarrow> string \<Rightarrow> (error + unit) \<times> db_state" where
  "removeColumn st tableName columnName =
     (if \<not> selected st then (Inl TypeError, st)
      else
        (case read_table (files st) tableName of
           None \<Rightarrow> (Inl (ENOENT tableName), st)
         | Some t \<Rightarrow>
             (if \<not> truthy_opt (getp (columns t) columnName)
              then (Inl (ColumnMissing columnName), st)
              else
                (Inr (),
                 st \<lparr> files := write_table (files st) tableName
                        (t \<lparr> columns := delp (columns t) columnName,
                             rows := map (\<lambda>row. delp row columnName) (rows t) \<rparr>) \<rparr>))))"

text \<open>
  \<^verbatim>\<open>migrate\<close>: the transform is a function of the row, its position and all rows, and
  \<open>None\<close> when it throws; the row then stays as it is.
\<close>

definition migrate ::
  "db_state \<Rightarrow> string \<Rightarrow> (jsobj \<Rightarrow> nat \<Rightarrow> jsobj list \<Rightarrow> jsobj option)
     \<Rightarrow> (error + unit) \<times> db_state" where
  "migrate st tableName migrationFn =
     (if \<not> selected st then (Inl TypeError, st)
      else
        (case read_table (files st) tableName of
           None \<Rightarrow> (Inl (TableNotFound tableName), st)
         | Some t \<Rightarrow>
             (Inr (),
              st \<lparr> files := write_table (files st) tableName
                     (t \<lparr> rows :=
                          map (\<lambda>ir. case migrationFn (snd ir) (fst ir) (rows t) of
                                      Some r \<Rightarrow> r
                                    | None \<Rightarrow> snd ir)
                            (enumerate 0 (rows t)) \<rparr>) \<rparr>)))"

section \<open>The scenario of the specification\<close>

text \<open>
  A selected, empty database, and the table \<^verbatim>\<open>t\<close> of the scenario:
  \<^verbatim>\<open>createTable('t', {name: {type: 'text', required: true}, age: {type: 'int', min: 0}})\<close>.
\<close>

definition empty_db :: db_state where
  "empty_db = \<lparr> selected = True, files = [], calls = 0 \<rparr>"

definition no_options :: create_options where
  "no_options = \<lparr> opt_encryption = None, opt_timestamps = None \<rparr>"

definition scenario_columns :: jsobj where
  "scenario_columns =
     [(''name'', JObj [(''type'', JStr ''text''), (''required'', JBool True)]),
      (''age'', JObj [(''type'', JStr ''int''), (''min'', JNum 0)])]"

definition scenario_db :: "host \<Rightarrow> db_state" where
  "scenario_db h = snd (createTable h empty_db ''t'' scenario_columns [] no_options)"

section \<open>A host to run the model on\<close>

text \<open>
  The general theorems below hold for every host. To run the model on concrete inputs
  the host needs values: \<open>test_host\<close> prints and reads integers in decimal, tests a
  pattern as a literal substring, sorts by stable insertion, reads and writes the JSON
  of strings without escapes and of \<^verbatim>\<open>null\<close>, and has a toy cipher that prefixes the
  key and refuses a text with another prefix, as a decipher refuses bad padding.
\<close>

definition digit_char :: "nat \<Rightarrow> char" where
  "digit_char n = (''0123456789'' ! (n mod 10))"

fun decimal :: "nat \<Rightarrow> string" where
  "decimal n = (if n < 10 then [digit_char n] else decimal (n div 10) @ [digit_char n])"

definition test_number_to_str :: "rat \<Rightarrow> string" where
  "test_number_to_str q =
     (if q < 0 then ''-'' @ decimal (nat (- \<lfloor>q\<rfloor>)) else decimal (nat \<lfloor>q\<rfloor>))"

definition digit_value :: "char \<Rightarrow> nat option" where
  "digit_value c =
     (if c \<in> set ''0123456789'' then Some (of_char c - of_char CHR ''0'') else None)"

fun read_decimal :: "string \<Rightarrow> nat \<Rightarrow> nat option" where
  "read_decimal [] acc = Some acc"
| "read_decimal (c # cs) acc =
     (case digit_value c of Some d \<Rightarrow> read_decimal cs (10 * acc + d) | None \<Rightarrow> None)"

definition test_str_to_number :: "string \<Rightarrow> jsnum" where
  "test_str_to_number s =
     (case read_decimal s 0 of Some n \<Rightarrow> Fin (of_nat n) | None \<Rightarrow> NaN)"

fun insert_sorted :: "(jsobj \<Rightarrow> jsobj \<Rightarrow> int) \<Rightarrow> jsobj \<Rightarrow> jsobj list \<Rightarrow> jsobj list" where
  "insert_sorted cmp x [] = [x]"
| "insert_sorted cmp x (y # ys) =
     (if cmp x y < 0 then x # y # ys else y # insert_sorted cmp x ys)"

definition test_sort :: "(jsobj \<Rightarrow> jsobj \<Rightarrow> int) \<Rightarrow> jsobj list \<Rightarrow> jsobj list" where
  "test_sort cmp xs = foldl (\<lambda>acc x. insert_sorted cmp x acc) [] xs"

definition test_json_stringify :: "jsval \<Rightarrow> string" where
  "test_json_stringify v = (case v of JStr s \<Rightarrow> ''\"'' @ s @ ''\"'' | _ \<Rightarrow> ''null'')"

definition test_json_parse :: "string \<Rightarrow> jsval option" where
  "test_json_parse s =
     (if s = ''null'' then Some JNull
      else if 2 \<le> length s \<and> hd s = CHR ''\"'' \<and> last s = CHR ''\"''
      then Some (JStr (butlast (tl s)))
      else None)"

definition test_encrypt :: "string \<Rightarrow> string \<Rightarrow> string option" where
  "test_encrypt k s = Some (k @ '':'' @ s)"

definition test_decrypt :: "string \<Rightarrow> string \<Rightarrow> string option" where
  "test_decrypt k s =
     (if starts_with s (k @ '':'') then Some (drop (length k + 1) s) else None)"

definition test_host :: host where
  "test_host =
     \<lparr> str_to_number = test_str_to_number,
       number_to_str = test_number_to_str,
       regexp_test = (\<lambda>p s. Some (str_includes s p)),
       date_parse = (\<lambda>s. NaN),
       json_parse = test_json_parse,
       json_stringify = test_json_stringify,
       array_sort = test_sort,
       cipher_encrypt = test_encrypt,
       cipher_decrypt = test_decrypt,
       uuidv4 = (\<lambda>n. ''00000000-0000-4000-8000-00000000000'' @ [digit_char n]),
       now = (\<lambda>n. ''2024-01-01T00:00:00.000Z''),
       native_to_str =
         (\<lambda>n. if n = ''__proto__'' then ''[object Object]''
              else ''function '' @ (if n = ''constructor'' then ''Object'' else n) @
                   ''() { [native code] }'') \<rparr>"

text \<open>A table of ten rows, numbered 0 to 9, with no encryption.\<close>

definition ten_rows :: "jsobj list" where
  "ten_rows =
     [ [(''n'', JNum 0)], [(''n'', JNum 1)], [(''n'', JNum 2)], [(''n'', JNum 3)],
      [(''n'', JNum 4)], [(''n'', JNum 5)], [(''n'', JNum 6)], [(''n'', JNum 7)],
      [(''n'', JNum 8)], [(''n'', JNum 9)] ]"

definition ten_table :: table where
  "ten_table =
     \<lparr> name = ''ten'', createdAt = ''2024-01-01T00:00:00.000Z'',
       columns = [(''n'', JObj [(''type'', JStr ''int'')])],
       relationships = [], rows = ten_rows, indexes = [],
       encryption = \<lparr> enc_key = None, enc_fields = None \<rparr>, timestamps = False \<rparr>"

definition ten_db :: db_state where
  "ten_db = \<lparr> selected = True, files = [(''ten'', ten_table)], calls = 0 \<rparr>"

definition all_rows :: select_options where
  "all_rows =
     \<lparr> opt_where = None, opt_join = None, opt_orderBy = None,
       opt_limit = None, opt_offset = None, opt_fields = None \<rparr>"

text \<open>
  A database with two tables: users, and posts with the relationship
  \<^verbatim>\<open>posts.user_id\<close> to \<^verbatim>\<open>users.id\<close>. Two posts are by u1, one by u2, and one names a
  user that does not exist.
\<close>

definition users_table :: table where
  "users_table =
     \<lparr> name = ''users'', createdAt = ''2024-01-01T00:00:00.000Z'',
       columns = [(''id'', JObj [(''type'', JStr ''text'')]),
                  (''name'', JObj [(''type'', JStr ''text'')])],
       relationships = [],
       rows = [ [(''id'', JStr ''u1''), (''name'', JStr ''ann'')],
               [(''id'', JStr ''u2''), (''name'', JStr ''bob'')] ],
       indexes = [],
       encryption = \<lparr> enc_key = None, enc_fields = None \<rparr>, timestamps = False \<rparr>"

definition posts_rows :: "jsobj list" where
  "posts_rows =
     [ [(''id'', JStr ''p1''), (''user_id'', JStr ''u1'')],
      [(''id'', JStr ''p2''), (''user_id'', JStr ''u1'')],
      [(''id'', JStr ''p3''), (''user_id'', JStr ''u2'')],
      [(''id'', JStr ''p4''), (''user_id'', JStr ''u9'')] ]"

definition posts_table :: table where
  "posts_table =
     \<lparr> name = ''posts'', createdAt = ''2024-01-01T00:00:00.000Z'',
       columns = [(''id'', JObj [(''type'', JStr ''text'')]),
                  (''user_id'', JObj [(''type'', JStr ''text'')])],
       relationships = [(''user_id'', \<lparr> foreignTable = ''users'', foreignKey = ''id'' \<rparr>)],
       rows = posts_rows,
       indexes = [],
       encryption = \<lparr> enc_key = None, enc_fields = None \<rparr>, timestamps = False \<rparr>"

definition blog_db :: db_state where
  "blog_db =
     \<lparr> selected = True, files = [(''posts'', posts_table), (''users'', users_table)], calls = 0 \<rparr>"

definition author_join :: "string \<Rightarrow> join_spec" where
  "author_join ty =
     \<lparr> join_table = ''users'', on_local = ''user_id'', on_foreign = ''id'',
       join_as = Some ''author'', join_type = Some ty \<rparr>"

definition posts_join :: join_spec where
  "posts_join =
     \<lparr> join_table = ''posts'', on_local = ''id'', on_foreign = ''user_id'',
       join_as = None, join_type = None \<rparr>"

definition tags_join :: "string \<Rightarrow> join_spec" where
  "tags_join ty =
     \<lparr> join_table = ''tags'', on_local = ''id'', on_foreign = ''post_id'',
       join_as = None, join_type = Some ty \<rparr>"

section \<open>The specification's words\<close>







text \<open>
  The page as the specification words it: the offset (0 when absent), then the limit
  (every row when absent, and when it is 0). A position that is negative counts from the
  end of the sequence.
\<close>

definition counted_position :: "nat \<Rightarrow> int \<Rightarrow> nat" where
  "counted_position len k = (if k < 0 then len - nat (- k) else nat k)"

definition page_of :: "int option \<Rightarrow> int option \<Rightarrow> 'a list \<Rightarrow> 'a list" where
  "page_of limit_opt offset_opt rs =
     (let offset = (case offset_opt of Some k \<Rightarrow> k | None \<Rightarrow> 0);
          limit = (case limit_opt of
                     Some k \<Rightarrow> (if k = 0 then int (length rs) else k)
                   | None \<Rightarrow> int (length rs))
      in drop (counted_position (length rs) offset)
           (take (counted_position (length rs) (offset + limit)) rs))"



text \<open>
  Two rows for the table \<^verbatim>\<open>t\<close> of the scenario: one that validates (it brings its own
  id) and one that does not (its age is below the minimum, and it has no id).
\<close>

definition good_row :: jsobj where
  "good_row =
     [(''id'', JStr ''123e4567-e89b-12d3-a456-426614174000''),
      (''name'', JStr ''a''), (''age'', JNum 5)]"

definition bad_row :: jsobj where
  "bad_row = [(''name'', JStr ''b''), (''age'', JNum (- 1))]"

definition stored_good_row :: jsobj where
  "stored_good_row =
     good_row @ [(''createdAt'', JStr ''2024-01-01T00:00:00.000Z''),
                 (''updatedAt'', JStr ''2024-01-01T00:00:00.000Z'')]"

definition after_good_db :: db_state where
  "after_good_db = snd (insert_row test_host (scenario_db test_host) ''t'' good_row)"

definition no_index_options :: index_options where
  "no_index_options = \<lparr> opt_type = None, opt_unique = None \<rparr>"
































text \<open>
  A table \<^verbatim>\<open>u\<close> with a unique column email, created with or without timestamps; rows
  with the email \<^verbatim>\<open>x\<close> and an id that ends in the given digit, and a row with the
  email \<^verbatim>\<open>y\<close>; the database after the insert of one row, and of two.
\<close>

definition unique_columns :: jsobj where
  "unique_columns = [(''email'', JObj [(''type'', JStr ''text''), (''unique'', JBool True)])]"

definition no_timestamps :: create_options where
  "no_timestamps = \<lparr> opt_encryption = None, opt_timestamps = Some False \<rparr>"

definition unique_table :: "bool \<Rightarrow> jsobj list \<Rightarrow> table" where
  "unique_table ts rs =
     \<lparr> name = ''u'', createdAt = ''2024-01-01T00:00:00.000Z'',
       columns = unique_columns @
         [(''id'', JObj [(''type'', JStr ''uuid''), (''required'', JBool True)])],
       relationships = [], rows = rs, indexes = [],
       encryption = \<lparr> enc_key = None, enc_fields = None \<rparr>, timestamps = ts \<rparr>"

definition unique_db :: "create_options \<Rightarrow> db_state" where
  "unique_db opts = snd (createTable test_host empty_db ''u'' unique_columns [] opts)"

definition row_x :: "string \<Rightarrow> jsobj" where
  "row_x i = [(''id'', JStr (''123e4567-e89b-12d3-a456-42661417400'' @ i)), (''email'', JStr ''x'')]"

definition stored_x :: jsobj where
  "stored_x = row_x ''0'' @ [(''createdAt'', JStr ''2024-01-01T00:00:00.000Z''),
                 (''updatedAt'', JStr ''2024-01-01T00:00:00.000Z'')]"

definition unique_db1 :: "create_options \<Rightarrow> db_state" where
  "unique_db1 opts = snd (insert_row test_host (unique_db opts) ''u'' (row_x ''0''))"



lemmas check_defs =
  check_column_def check_type_def check_required_def check_unique_def check_min_def
  check_max_def check_minLength_def check_maxLength_def check_pattern_def def_prop_def
  apply_default_def extra_fields_def js_read_def object_prototype_names_def shown_def
  string_length_def includes_value_def


section \<open>Claims\<close>

text \<open>
  C1. The scenario: on the table \<^verbatim>\<open>t\<close> with columns name (text, required) and age
  (int, min 0) and the implicit id column (uuid, required), inserting
  \<^verbatim>\<open>{name: 'a', age: -1}\<close> must fail with a violation on age, and inserting
  \<^verbatim>\<open>{name: 'a', age: 5}\<close> must succeed with a generated id. The code does the first and
  not the second: \<^verbatim>\<open>insert\<close> validates the row before it generates the id, and the
  implicit id column is required, so for every host the second insert fails with the
  single violation that id is required.
\<close>

theorem C1_insert_without_id_rejected:
  "fst (insert_row h (scenario_db h) ''t'' [(''name'', JStr ''a''), (''age'', JNum (- 1))]) =
     Inl (ValidationFailed [BelowMin ''age'' (JNum (- 1)) (JNum 0), IsRequired ''id''])
   \<and> fst (insert_row h (scenario_db h) ''t'' [(''name'', JStr ''a''), (''age'', JNum 5)]) =
     Inl (ValidationFailed [IsRequired ''id''])"
  by (simp add: scenario_db_def empty_db_def no_options_def scenario_columns_def
      createTable_def insert_row_def validateRow_def check_defs type_validator_def
      js_lt_def js_gt_def)

subsection \<open>Pagination\<close>

lemma js_slice_window:
  "0 \<le> off \<Longrightarrow> 0 \<le> lm \<Longrightarrow> js_slice rs off (off + lm) = take (nat lm) (drop (nat off) rs)"
  unfolding js_slice_def slice_index_def Let_def
  by (cases "nat off \<le> length rs") (auto simp: min_def nat_add_distrib)

lemma paginate_both:
  "0 \<le> off \<Longrightarrow> 0 < lm \<Longrightarrow>
     select_paginate (Some lm) (Some off) rs = take (nat lm) (drop (nat off) rs)"
  by (simp add: select_paginate_def truthy_num_def or_default_def js_slice_window)

lemma paginate_limit_only:
  "0 < lm \<Longrightarrow> select_paginate (Some lm) None rs = take (nat lm) rs"
  using js_slice_window[of 0 lm rs]
  by (simp add: select_paginate_def truthy_num_def or_default_def)

lemma paginate_offset_only:
  "0 \<le> off \<Longrightarrow> select_paginate None (Some off) rs = drop (nat off) rs"
  using js_slice_window[of off "int (length rs)" rs]
  by (simp add: select_paginate_def truthy_num_def or_default_def)

lemma paginate_limit_zero:
  "off = None \<or> off = Some 0 \<Longrightarrow> select_paginate (Some 0) off rs = rs"
  by (auto simp: select_paginate_def truthy_num_def)

lemma paginate_none: "select_paginate None None rs = rs"
  by (simp add: select_paginate_def truthy_num_def)

lemma window_of_ten:
  assumes "length rs = 10"
  shows "take 4 (drop 3 rs) = [rs ! 3, rs ! 4, rs ! 5, rs ! 6]"
proof (rule nth_equalityI)
  show "length (take 4 (drop 3 rs)) = length [rs ! 3, rs ! 4, rs ! 5, rs ! 6]"
    using assms by simp
next
  fix i
  assume "i < length (take 4 (drop 3 rs))"
  with assms show "take 4 (drop 3 rs) ! i = [rs ! 3, rs ! 4, rs ! 5, rs ! 6] ! i"
    by (auto simp: nth_Cons' intro!: arg_cong[where f="(!) rs"])
qed

text \<open>
  What \<open>select\<close> returns in terms of the sequence before pagination and projection,
  which is the result of the same \<open>select\<close> without limit, offset and field list.
\<close>

lemma select_stages:
  assumes "select h st tableName
             (options \<lparr> opt_limit := None, opt_offset := None, opt_fields := None \<rparr>) = Inr before"
  shows "select h st tableName (options \<lparr> opt_limit := l, opt_offset := off, opt_fields := f \<rparr>) =
           Inr (select_fields f (select_paginate l off before))"
  using assms
  by (auto simp: select_def select_fields_def paginate_none
           split: if_splits option.splits sum.splits)

lemma slice_index_position: "slice_index len i = min (counted_position len i) len"
  by (simp add: slice_index_def counted_position_def min_def max_def) arith

lemma take_drop_clamped:
  "take (min b (length rs) - min a (length rs)) (drop (min a (length rs)) rs) =
     take (b - a) (drop a rs)"
  by (cases "a \<le> length rs"; cases "b \<le> length rs") (simp_all add: min_def)

lemma js_slice_positions:
  "js_slice rs a b =
     drop (counted_position (length rs) a) (take (counted_position (length rs) b) rs)"
  by (simp add: js_slice_def Let_def slice_index_position take_drop_clamped drop_take)

lemma paginate_page: "select_paginate l off rs = page_of l off rs"
  by (cases l; cases off)
     (simp_all add: select_paginate_def page_of_def truthy_num_def or_default_def
        js_slice_positions counted_position_def Let_def)

text \<open>
  C8 as the code has it. Let \<open>before\<close> be what the select returns without limit, offset
  and field list. With any limit, offset and field list it returns the fields of the
  page of \<open>before\<close>, where the offset is 0 when absent, the limit is the number of rows
  of \<open>before\<close> when it is absent and also when it is 0, and the page is the rows from
  position offset up to, not including, position offset + limit, a negative position
  counting from the end. So for an offset that is not negative and a positive limit the
  page is the first limit rows after the first offset rows; a positive limit alone
  gives the first limit rows; an offset that is not negative, alone or with the limit
  0, gives every row after the first offset rows; and with ten rows, offset 3 and limit
  4 give the rows at positions 3 to 6.
\<close>

theorem C8_offset_then_limit:
  assumes "select h st tableName
             (options \<lparr> opt_limit := None, opt_offset := None, opt_fields := None \<rparr>) = Inr before"
  shows "select h st tableName
           (options \<lparr> opt_limit := l, opt_offset := ofs, opt_fields := f \<rparr>) =
         Inr (select_fields f (page_of l ofs before))
       \<and> (0 \<le> off \<and> 0 < lm \<longrightarrow>
            select h st tableName
              (options \<lparr> opt_limit := Some lm, opt_offset := Some off, opt_fields := f \<rparr>) =
            Inr (select_fields f (take (nat lm) (drop (nat off) before))))
       \<and> (0 < lm \<longrightarrow>
            select h st tableName
              (options \<lparr> opt_limit := Some lm, opt_offset := None, opt_fields := f \<rparr>) =
            Inr (select_fields f (take (nat lm) before)))
       \<and> (0 \<le> off \<longrightarrow>
            select h st tableName
              (options \<lparr> opt_limit := None, opt_offset := Some off, opt_fields := f \<rparr>) =
            Inr (select_fields f (drop (nat off) before)))
       \<and> (0 \<le> off \<longrightarrow>
            select h st tableName
              (options \<lparr> opt_limit := Some 0, opt_offset := Some off, opt_fields := f \<rparr>) =
            Inr (select_fields f (drop (nat off) before)))
       \<and> (length before = 10 \<longrightarrow>
            select h st tableName
              (options \<lparr> opt_limit := Some 4, opt_offset := Some 3, opt_fields := None \<rparr>) =
            Inr [before ! 3, before ! 4, before ! 5, before ! 6])"
proof -
  note s = select_stages[OF assms]
  have ten: "length before = 10 \<Longrightarrow>
          select_fields None (select_paginate (Some 4) (Some 3) before) =
          [before ! 3, before ! 4, before ! 5, before ! 6]"
    using window_of_ten[of before] by (simp add: paginate_both select_fields_def)
  have zero: "0 \<le> off \<Longrightarrow> select_paginate (Some 0) (Some off) before = drop (nat off) before"
    using js_slice_window[of off "int (length before)" before]
    by (simp add: select_paginate_def truthy_num_def or_default_def)
  have gen: "select h st tableName
           (options \<lparr> opt_limit := l, opt_offset := ofs, opt_fields := f \<rparr>) =
         Inr (select_fields f (page_of l ofs before))"
    by (simp add: s paginate_page)
  show ?thesis
    using gen ten zero by (simp add: s paginate_both paginate_limit_only paginate_offset_only)
qed

lemma select_ten_rows: "select test_host ten_db ''ten'' all_rows = Inr ten_rows"
  by (simp add: select_def ten_db_def ten_table_def all_rows_def decrypt_rows_def
      select_where_def select_join_def select_sort_def select_paginate_def truthy_num_def
      select_fields_def)

theorem C8_offset_then_limit_witness:
  "select test_host ten_db ''ten'' (all_rows \<lparr> opt_limit := Some 4, opt_offset := Some 3 \<rparr>) =
     Inr [ [(''n'', JNum 3)], [(''n'', JNum 4)], [(''n'', JNum 5)], [(''n'', JNum 6)] ]
   \<and> select test_host ten_db ''ten'' (all_rows \<lparr> opt_limit := Some 2, opt_offset := Some (- 3) \<rparr>) =
     Inr [ [(''n'', JNum 7)], [(''n'', JNum 8)] ]"
proof -
  have pre: "select test_host ten_db ''ten''
               (all_rows \<lparr> opt_limit := None, opt_offset := None, opt_fields := None \<rparr>) =
             Inr ten_rows"
    using select_ten_rows by (simp add: all_rows_def)
  have len: "length ten_rows = 10" by (simp add: ten_rows_def)
  have 1: "select test_host ten_db ''ten''
          (all_rows \<lparr> opt_limit := Some 4, opt_offset := Some 3, opt_fields := None \<rparr>) =
        Inr [ten_rows ! 3, ten_rows ! 4, ten_rows ! 5, ten_rows ! 6]"
    using C8_offset_then_limit[OF pre, where f=None and l=None and ofs=None and off=0 and lm=1]
          len by simp
  have 2: "select test_host ten_db ''ten''
          (all_rows \<lparr> opt_limit := Some 2, opt_offset := Some (- 3), opt_fields := None \<rparr>) =
        Inr (select_fields None (page_of (Some 2) (Some (- 3)) ten_rows))"
    using C8_offset_then_limit[OF pre, where l="Some 2" and ofs="Some (- 3)" and f=None]
    by (rule conjunct1)
  show ?thesis
    using 1 2
    by (simp add: ten_rows_def all_rows_def page_of_def counted_position_def select_fields_def)
qed

text \<open>
  C8 as the claim states it fails for the limit 0: with the offset 3 the ten rows give
  the seven rows from position 3 on, and not no row: a limit of 0 is taken as no limit.
\<close>

theorem C8_limit_zero_counterexample:
  "select test_host ten_db ''ten'' (all_rows \<lparr> opt_limit := Some 0, opt_offset := Some 3 \<rparr>) =
     Inr [ [(''n'', JNum 3)], [(''n'', JNum 4)], [(''n'', JNum 5)], [(''n'', JNum 6)],
           [(''n'', JNum 7)], [(''n'', JNum 8)], [(''n'', JNum 9)] ]"
  by (simp add: select_def ten_db_def ten_table_def ten_rows_def all_rows_def decrypt_rows_def
      select_where_def select_join_def select_sort_def select_paginate_def truthy_num_def
      or_default_def js_slice_def slice_index_def select_fields_def)

text \<open>
  C10. A limit of 0 with no offset, or offset 0, skips the pagination stage: the select
  returns what it returns without limit and offset, and with no other option that is
  every row of the table (decrypted where the table encrypts fields), not zero rows.
\<close>

theorem C10_limit_zero_returns_all_rows:
  assumes "selected st" and "read_table (files st) tableName = Some t"
      and "off = None \<or> off = Some 0"
  shows "select h st tableName (all_rows \<lparr> opt_limit := Some 0, opt_offset := off \<rparr>) =
           Inr (decrypt_rows h t)
       \<and> length (decrypt_rows h t) = length (rows t)
       \<and> (enc_fields (encryption t) = None \<longrightarrow> decrypt_rows h t = rows t)
       \<and> select h st tableName (options \<lparr> opt_limit := Some 0, opt_offset := off \<rparr>) =
           select h st tableName (options \<lparr> opt_limit := None, opt_offset := None \<rparr>)"
proof -
  have p: "select_paginate (Some 0) off rs = rs" for rs
    using assms(3) by (rule paginate_limit_zero)
  have "select h st tableName (all_rows \<lparr> opt_limit := Some 0, opt_offset := off \<rparr>) =
          Inr (decrypt_rows h t)"
    using assms(1,2)
    by (simp add: select_def all_rows_def select_where_def select_join_def select_sort_def
        select_fields_def p)
  moreover have "length (decrypt_rows h t) = length (rows t)"
    by (simp add: decrypt_rows_def split: option.splits)
  moreover have "enc_fields (encryption t) = None \<longrightarrow> decrypt_rows h t = rows t"
    by (simp add: decrypt_rows_def)
  moreover have "select h st tableName (options \<lparr> opt_limit := Some 0, opt_offset := off \<rparr>) =
                 select h st tableName (options \<lparr> opt_limit := None, opt_offset := None \<rparr>)"
    by (simp add: select_def p paginate_none split: option.splits sum.splits)
  ultimately show ?thesis by blast
qed

theorem C10_limit_zero_returns_all_rows_witness:
  "select test_host ten_db ''ten'' (all_rows \<lparr> opt_limit := Some 0, opt_offset := None \<rparr>) =
     Inr ten_rows
   \<and> select test_host ten_db ''ten'' (all_rows \<lparr> opt_limit := Some 0, opt_offset := Some 0 \<rparr>) =
     Inr ten_rows"
proof -
  have s: "selected ten_db" and r: "read_table (files ten_db) ''ten'' = Some ten_table"
    by (simp_all add: ten_db_def)
  have d: "decrypt_rows test_host ten_table = ten_rows"
    by (simp add: decrypt_rows_def ten_table_def)
  show ?thesis
    using C10_limit_zero_returns_all_rows[OF s r, of None test_host all_rows]
          C10_limit_zero_returns_all_rows[OF s r, of "Some 0" test_host all_rows]
    by (simp add: d)
qed

subsection \<open>Joins\<close>





lemma js_slice_Nil: "js_slice [] a b = []"
  by (simp add: js_slice_def)

lemma select_tail_Nil:
  "\<forall>c. array_sort h c [] = [] \<Longrightarrow>
     select_fields f (select_paginate l off (select_sort h ob [])) = []"
  by (auto simp: select_fields_def select_paginate_def select_sort_def js_slice_Nil
      split: option.splits)





lemmas blog_defs =
  blog_db_def posts_table_def users_table_def posts_rows_def author_join_def posts_join_def
  tags_join_def





subsection \<open>Cascading delete\<close>

lemma read_write_same: "read_table (write_table fs n t) n = Some t"
  by (induction fs) auto













subsection \<open>Missing and existing tables\<close>

text \<open>
  C6. On a selected database without the table: \<^verbatim>\<open>insert\<close>, \<^verbatim>\<open>select\<close>, \<^verbatim>\<open>update\<close>,
  \<^verbatim>\<open>delete\<close> and \<^verbatim>\<open>migrate\<close> fail with the table-not-found error, and \<^verbatim>\<open>createTable\<close>
  on a table that exists fails with the table-exists error, as the claim says. But
  \<^verbatim>\<open>addIndex\<close>, \<^verbatim>\<open>addColumn\<close> and \<^verbatim>\<open>removeColumn\<close> have no such check: they fail with
  the ENOENT error of \<^verbatim>\<open>fs.readFileSync\<close>. No operation changes the state.
\<close>

theorem C6_missing_table_errors:
  assumes "selected st" and "read_table (files st) tableName = None"
  shows "addIndex h st tableName field ixo = (Inl (ENOENT tableName), st)
       \<and> addColumn st tableName columnName d = (Inl (ENOENT tableName), st)
       \<and> removeColumn st tableName columnName = (Inl (ENOENT tableName), st)
       \<and> insert_row h st tableName rowData = (Inl (TableNotFound tableName), st)
       \<and> select h st tableName options = Inl (TableNotFound tableName)
       \<and> update h st tableName updates wher = (Inl (TableNotFound tableName), st)
       \<and> delete st tableName wher cascade = (Inl (TableNotFound tableName), st)
       \<and> migrate st tableName migrationFn = (Inl (TableNotFound tableName), st)
       \<and> (\<forall>other t. read_table (files st) other = Some t \<and> other \<noteq> [] \<longrightarrow>
             createTable h st other cols rels copts = (Inl (TableExists other), st))"
  using assms
  by (simp add: addIndex_def addColumn_def removeColumn_def insert_row_def select_def
      update_def delete_def migrate_def createTable_def)

theorem C6_missing_table_errors_witness:
  "addIndex test_host (scenario_db test_host) ''missing'' ''name'' no_index_options =
     (Inl (ENOENT ''missing''), scenario_db test_host)
   \<and> addColumn (scenario_db test_host) ''missing'' ''bio'' (JStr ''text'') =
     (Inl (ENOENT ''missing''), scenario_db test_host)
   \<and> removeColumn (scenario_db test_host) ''missing'' ''bio'' =
     (Inl (ENOENT ''missing''), scenario_db test_host)
   \<and> insert_row test_host (scenario_db test_host) ''missing'' good_row =
     (Inl (TableNotFound ''missing''), scenario_db test_host)
   \<and> createTable test_host (scenario_db test_host) ''t'' scenario_columns [] no_options =
     (Inl (TableExists ''t''), scenario_db test_host)"
proof -
  have sel: "selected (scenario_db test_host)"
    and none: "read_table (files (scenario_db test_host)) ''missing'' = None"
    and t: "\<exists>t. read_table (files (scenario_db test_host)) ''t'' = Some t"
    by (simp_all add: scenario_db_def empty_db_def no_options_def createTable_def
        scenario_columns_def)
  from t obtain t where "read_table (files (scenario_db test_host)) ''t'' = Some t" ..
  then show ?thesis
    using C6_missing_table_errors[OF sel none, of test_host "''name''" no_index_options
            "''bio''" "JStr ''text''" good_row _ _ _ _ _ scenario_columns "[]" no_options]
    by auto
qed

subsection \<open>Batched inserts\<close>

lemma insert_row_failure_keeps_state:
  "insert_row h st n r = (Inl e, st') \<Longrightarrow> st' = st"
  by (auto simp: insert_row_def Let_def split: if_splits option.splits sum.splits)

lemma insert_row_success_appends:
  "insert_row h st n r = (Inr x, st') \<Longrightarrow>
     \<exists>t. read_table (files st) n = Some t \<and>
         read_table (files st') n = Some (t \<lparr> rows := rows t @ [x] \<rparr>)"
  by (auto simp: insert_row_def Let_def read_write_same split: if_splits option.splits sum.splits)

lemma loop_acc:
  "insertMany_loop h st n xs acc =
     (case insertMany_loop h st n xs [] of
        (Inl e, s) \<Rightarrow> (Inl e, s)
      | (Inr new, s) \<Rightarrow> (Inr (acc @ new), s))"
proof (induction xs arbitrary: st acc)
  case Nil
  then show ?case by simp
next
  case (Cons x xs)
  show ?case
  proof (cases "insert_row h st n x")
    case (Pair res s)
    show ?thesis
    proof (cases res)
      case (Inl e)
      then show ?thesis using Pair by simp
    next
      case (Inr y)
      have a: "insertMany_loop h s n xs (acc @ [y]) =
            (case insertMany_loop h s n xs [] of
               (Inl e, s') \<Rightarrow> (Inl e, s') | (Inr new, s') \<Rightarrow> (Inr ((acc @ [y]) @ new), s'))"
        by (rule Cons.IH)
      have b: "insertMany_loop h s n xs [y] =
            (case insertMany_loop h s n xs [] of
               (Inl e, s') \<Rightarrow> (Inl e, s') | (Inr new, s') \<Rightarrow> (Inr ([y] @ new), s'))"
        by (rule Cons.IH)
      show ?thesis using Pair Inr
        by (simp add: a b split: prod.splits sum.splits)
    qed
  qed
qed

lemma insertMany_Nil: "insertMany h st n [] = (Inr [], st)"
  by (simp add: insertMany_def)

lemma insertMany_Cons:
  "insertMany h st n (x # xs) =
     (case insert_row h st n x of
        (Inl e, s) \<Rightarrow> (Inl e, s)
      | (Inr y, s) \<Rightarrow>
          (case insertMany h s n xs of
             (Inl e, s') \<Rightarrow> (Inl e, s')
           | (Inr ys, s') \<Rightarrow> (Inr (y # ys), s')))"
  unfolding insertMany_def
  by (cases "insert_row h st n x") (auto simp: loop_acc[of _ _ _ _ "[_]"] split: sum.splits prod.splits)

lemma insertMany_append:
  "insertMany h st n (xs @ ys) =
     (case insertMany h st n xs of
        (Inl e, s) \<Rightarrow> (Inl e, s)
      | (Inr rs, s) \<Rightarrow>
          (case insertMany h s n ys of
             (Inl e, s') \<Rightarrow> (Inl e, s')
           | (Inr rs', s') \<Rightarrow> (Inr (rs @ rs'), s')))"
proof (induction xs arbitrary: st)
  case Nil
  show ?case by (simp add: insertMany_Nil split: prod.splits sum.splits)
next
  case (Cons x xs)
  show ?case
    by (simp add: insertMany_Cons Cons.IH split: prod.splits sum.splits)
qed

lemma insertMany_persists:
  "insertMany h st n xs = (Inr rs, s) \<Longrightarrow> read_table (files st) n = Some t \<Longrightarrow>
     read_table (files s) n = Some (t \<lparr> rows := rows t @ rs \<rparr>) \<and> length rs = length xs"
proof (induction xs arbitrary: st t rs)
  case Nil
  then show ?case by (simp add: insertMany_Nil)
next
  case (Cons x xs)
  from Cons.prems(1) obtain y s1 ys where
    1: "insert_row h st n x = (Inr y, s1)" and 2: "insertMany h s1 n xs = (Inr ys, s)"
    and 3: "rs = y # ys"
    by (auto simp: insertMany_Cons split: prod.splits sum.splits)
  from insert_row_success_appends[OF 1] Cons.prems(2)
  have "read_table (files s1) n = Some (t \<lparr> rows := rows t @ [y] \<rparr>)" by auto
  from Cons.IH[OF 2 this] show ?case by (simp add: 3)
qed

lemma insertMany_length:
  "insertMany h st n xs = (Inr rs, s) \<Longrightarrow> length rs = length xs"
proof (induction xs arbitrary: st rs)
  case Nil
  then show ?case by (simp add: insertMany_Nil)
next
  case (Cons x xs)
  from Cons.prems obtain y s1 ys where
    "insertMany h s1 n xs = (Inr ys, s)" and "rs = y # ys"
    by (auto simp: insertMany_Cons split: prod.splits sum.splits)
  with Cons.IH show ?case by simp
qed

text \<open>
  C7 as the code has it. The inserts of a batch run one after the other, each on the
  state the one before it left. When the elements \<open>earlier\<close> have been inserted and the
  next element fails with \<open>e\<close>, then \<open>insertMany\<close> fails with \<open>e\<close>, whatever follows
  in the batch, and the state is the one after the earlier inserts: their rows are in
  the table, in order, behind the rows it had. The error is the element's own: it
  carries no count.
\<close>

theorem C7_insertMany_stops_at_first_failure:
  assumes "insertMany h st tableName earlier = (Inr results, st1)"
      and "fst (insert_row h st1 tableName failing) = Inl e"
  shows "insertMany h st tableName (earlier @ failing # rest) = (Inl e, st1)
       \<and> length results = length earlier
       \<and> (\<forall>t. read_table (files st) tableName = Some t \<longrightarrow>
             read_table (files st1) tableName = Some (t \<lparr> rows := rows t @ results \<rparr>))
       \<and> insertMany h st tableName (earlier @ later) =
           (case insertMany h st1 tableName later of
              (Inl e', s) \<Rightarrow> (Inl e', s)
            | (Inr further, s) \<Rightarrow> (Inr (results @ further), s))"
proof -
  obtain s where s: "insert_row h st1 tableName failing = (Inl e, s)"
    using assms(2) by (cases "insert_row h st1 tableName failing") auto
  have "s = st1" using s by (rule insert_row_failure_keeps_state)
  then have "insertMany h st1 tableName (failing # rest) = (Inl e, st1)"
    using s by (simp add: insertMany_Cons)
  then have "insertMany h st tableName (earlier @ failing # rest) = (Inl e, st1)"
    using assms(1) by (simp add: insertMany_append)
  moreover have "length results = length earlier"
    using assms(1) by (rule insertMany_length)
  moreover have "insertMany h st tableName (earlier @ later) =
           (case insertMany h st1 tableName later of
              (Inl e', s) \<Rightarrow> (Inl e', s)
            | (Inr further, s) \<Rightarrow> (Inr (results @ further), s))"
    using assms(1) by (simp add: insertMany_append)
  ultimately show ?thesis using insertMany_persists[OF assms(1)] by simp
qed

lemmas scenario_defs =
  scenario_db_def empty_db_def no_options_def scenario_columns_def createTable_def

lemmas insert_defs =
  insert_row_def validateRow_def check_defs type_validator_def js_lt_def js_gt_def
  generate_id_def add_timestamps_def set_if_falsy_def is_uuid_def is_hex_def
  js_includes_def existingValues_def isNew_def

lemma scenario_table:
  "read_table (files (scenario_db h)) ''t'' =
     Some \<lparr> name = ''t'', createdAt = now h 0,
            columns = scenario_columns @
              [(''id'', JObj [(''type'', JStr ''uuid''), (''required'', JBool True)])],
            relationships = [], rows = [], indexes = [],
            encryption = \<lparr> enc_key = None, enc_fields = None \<rparr>, timestamps = True \<rparr>"
  by (simp add: scenario_defs)

lemma scenario_insert_good:
  "insert_row test_host (scenario_db test_host) ''t'' good_row = (Inr stored_good_row, after_good_db)"
proof -
  have "fst (insert_row test_host (scenario_db test_host) ''t'' good_row) = Inr stored_good_row"
    by (simp add: scenario_defs insert_defs good_row_def stored_good_row_def test_host_def
        eval_nat_numeral Let_def)
  then show ?thesis
    by (simp add: after_good_db_def prod_eq_iff)
qed

lemma after_good_table:
  "read_table (files after_good_db) ''t'' =
     Some \<lparr> name = ''t'', createdAt = ''2024-01-01T00:00:00.000Z'',
            columns = scenario_columns @
              [(''id'', JObj [(''type'', JStr ''uuid''), (''required'', JBool True)])],
            relationships = [], rows = [stored_good_row], indexes = [],
            encryption = \<lparr> enc_key = None, enc_fields = None \<rparr>, timestamps = True \<rparr>"
  by (simp add: after_good_db_def scenario_defs insert_defs good_row_def stored_good_row_def
      test_host_def eval_nat_numeral Let_def)

lemma after_good_selected: "selected after_good_db"
  by (simp add: after_good_db_def scenario_defs insert_defs good_row_def test_host_def
      eval_nat_numeral Let_def)

lemma bad_row_rejected:
  "selected st \<Longrightarrow>
   read_table (files st) ''t'' =
     Some \<lparr> name = ''t'', createdAt = c,
            columns = scenario_columns @
              [(''id'', JObj [(''type'', JStr ''uuid''), (''required'', JBool True)])],
            relationships = [], rows = rs, indexes = [],
            encryption = \<lparr> enc_key = None, enc_fields = None \<rparr>, timestamps = True \<rparr> \<Longrightarrow>
   insert_row h st ''t'' bad_row =
     (Inl (ValidationFailed [BelowMin ''age'' (JNum (- 1)) (JNum 0), IsRequired ''id'']), st)"
  by (simp add: insert_row_def validateRow_def check_defs type_validator_def js_lt_def
      js_gt_def bad_row_def scenario_columns_def)

theorem C7_insertMany_stops_at_first_failure_witness:
  "insertMany test_host (scenario_db test_host) ''t'' ([good_row] @ bad_row # [good_row]) =
     (Inl (ValidationFailed [BelowMin ''age'' (JNum (- 1)) (JNum 0), IsRequired ''id'']),
      after_good_db)
   \<and> map_option rows (read_table (files after_good_db) ''t'') = Some [stored_good_row]"
proof -
  have a: "insertMany test_host (scenario_db test_host) ''t'' [good_row] =
             (Inr [stored_good_row], after_good_db)"
    by (simp add: insertMany_Cons insertMany_Nil scenario_insert_good)
  have b: "fst (insert_row test_host after_good_db ''t'' bad_row) =
             Inl (ValidationFailed [BelowMin ''age'' (JNum (- 1)) (JNum 0), IsRequired ''id''])"
    using bad_row_rejected[OF after_good_selected after_good_table] by simp
  have "insertMany test_host (scenario_db test_host) ''t'' ([good_row] @ bad_row # [good_row]) =
          (Inl (ValidationFailed [BelowMin ''age'' (JNum (- 1)) (JNum 0), IsRequired ''id'']),
           after_good_db)"
    using C7_insertMany_stops_at_first_failure[OF a b, of "[good_row]" "[]"]
    by (rule conjunct1)
  then show ?thesis
    by (simp add: after_good_table)
qed

text \<open>
  C7 as the claim states it fails: a batch whose second element fails, after one
  completed insert of two attempted, and a batch whose only element fails, with none
  completed of one attempted, give the caller the same outcome, the validation error of
  the failing row. The first batch leaves one row in the table and the second none.
\<close>

theorem C7_no_count_counterexample:
  "fst (insertMany test_host (scenario_db test_host) ''t'' [good_row, bad_row]) =
     Inl (ValidationFailed [BelowMin ''age'' (JNum (- 1)) (JNum 0), IsRequired ''id''])
   \<and> fst (insertMany test_host (scenario_db test_host) ''t'' [bad_row]) =
     Inl (ValidationFailed [BelowMin ''age'' (JNum (- 1)) (JNum 0), IsRequired ''id''])
   \<and> map_option rows
        (read_table (files (snd (insertMany test_host (scenario_db test_host) ''t''
                                   [good_row, bad_row]))) ''t'') = Some [stored_good_row]
   \<and> map_option rows
        (read_table (files (snd (insertMany test_host (scenario_db test_host) ''t''
                                   [bad_row]))) ''t'') = Some []"
proof -
  have s: "selected (scenario_db test_host)" by (simp add: scenario_defs)
  have 1: "insertMany test_host (scenario_db test_host) ''t'' [good_row, bad_row] =
             (Inl (ValidationFailed [BelowMin ''age'' (JNum (- 1)) (JNum 0), IsRequired ''id'']),
              after_good_db)"
    using bad_row_rejected[OF after_good_selected after_good_table]
    by (simp add: insertMany_Cons insertMany_Nil scenario_insert_good)
  have 2: "insertMany test_host (scenario_db test_host) ''t'' [bad_row] =
             (Inl (ValidationFailed [BelowMin ''age'' (JNum (- 1)) (JNum 0), IsRequired ''id'']),
              scenario_db test_host)"
    using bad_row_rejected[OF s scenario_table]
    by (simp add: insertMany_Cons insertMany_Nil)
  show ?thesis
    by (simp add: 1 2 after_good_table scenario_table)
qed

subsection \<open>Row validation\<close>





















subsection \<open>Uniqueness\<close>


















lemmas unique_defs = unique_db_def unique_columns_def no_timestamps_def row_x_def unique_table_def
  empty_db_def no_options_def createTable_def stored_x_def



lemma unique_db1_table:
  "read_table (files (unique_db1 no_timestamps)) ''u'' = Some (unique_table False [row_x ''0''])"
  "read_table (files (unique_db1 no_options)) ''u'' = Some (unique_table True [stored_x])"
  "selected (unique_db1 no_timestamps)" "selected (unique_db1 no_options)"
  by (simp_all add: unique_db1_def unique_defs insert_defs test_host_def eval_nat_numeral Let_def)




text \<open>
  On a table with timestamps (the default) the stored row has the fields
  \<^verbatim>\<open>createdAt\<close> and \<^verbatim>\<open>updatedAt\<close>, which the schema does not have: the validation
  that \<^verbatim>\<open>update\<close> runs rejects them as extra fields, and the update changes no row.
\<close>

lemma update_of_timestamped_row_changes_nothing:
  "fst (update test_host (unique_db1 no_options) ''u'' [(''email'', JStr ''x'')]
          [(''email'', JStr ''x'')]) = Inr (0, [])"
  using unique_db1_table(2,4)
  by (simp add: update_def update_row_def row_matches_def other_rows_def spread_def
      validateRow_def check_defs type_validator_def is_uuid_def is_hex_def
      unique_table_def unique_columns_def row_x_def stored_x_def
      test_host_def eval_nat_numeral Let_def enumerate_eq_zip)

subsection \<open>Field encryption\<close>

text \<open>
  C4 as the code has it. Under a key that is not empty, when the host's cipher
  encrypts the JSON text of \<open>v\<close> and decrypts it back under the same key, and
  \<^verbatim>\<open>JSON.parse\<close> inverts \<^verbatim>\<open>JSON.stringify\<close> on \<open>v\<close>: the field is stored as the tagged
  ciphertext, decrypting it under the same key gives \<open>v\<close>, decrypting it under any
  key never raises, and it gives the tagged ciphertext back unchanged when that key is
  empty, or the decipher throws under it, or what it returns is not JSON. Under an
  empty or missing key \<^verbatim>\<open>encryptField\<close> returns the value as it is; decrypting that
  under a key \<open>k'\<close> raises a TypeError when the value is \<^verbatim>\<open>null\<close>, and gives the value
  back when it is not \<^verbatim>\<open>null\<close> and either \<open>k'\<close> is empty or missing too, or the value
  has no truthy property \<^verbatim>\<open>encrypted\<close>.
\<close>

theorem C4_roundtrip_under_a_key:
  assumes key: "\<not> no_key k"
      and enc: "cipher_encrypt h (the k) (json_stringify h v) = Some encrypted"
      and dec: "cipher_decrypt h (the k) encrypted = Some (json_stringify h v)"
      and json: "json_parse h (json_stringify h v) = Some v"
  shows "encryptField h v k = JObj [(''encrypted'', JBool True), (''data'', JStr encrypted)]
       \<and> decryptField h (encryptField h v k) k = Inr v
       \<and> (\<forall>k'. \<exists>r. decryptField h (encryptField h v k) k' = Inr r)
       \<and> (\<forall>k'. no_key k' \<or> cipher_decrypt h (the k') encrypted = None
                \<or> (\<exists>s. cipher_decrypt h (the k') encrypted = Some s \<and> json_parse h s = None) \<longrightarrow>
              decryptField h (encryptField h v k) k' = Inr (encryptField h v k))
       \<and> (\<forall>k0. no_key k0 \<longrightarrow> encryptField h v k0 = v)
       \<and> (\<forall>k0 k'. no_key k0 \<longrightarrow> decryptField h (encryptField h JNull k0) k' = Inl TypeError)
       \<and> (\<forall>k0 k'. no_key k0 \<and> v \<noteq> JNull
                   \<and> (no_key k' \<or> \<not> truthy_opt (def_prop v ''encrypted'')) \<longrightarrow>
              decryptField h (encryptField h v k0) k' = Inr v)"
proof -
  have e: "encryptField h v k = JObj [(''encrypted'', JBool True), (''data'', JStr encrypted)]"
    using key enc by (simp add: encryptField_def)
  have d: "decryptField h (JObj [(''encrypted'', JBool True), (''data'', JStr encrypted)]) k' =
             (if no_key k' then Inr (JObj [(''encrypted'', JBool True), (''data'', JStr encrypted)])
              else case cipher_decrypt h (the k') encrypted of
                     Some decrypted \<Rightarrow>
                       (case json_parse h decrypted of
                          Some w \<Rightarrow> Inr w
                        | None \<Rightarrow> Inr (JObj [(''encrypted'', JBool True), (''data'', JStr encrypted)]))
                   | None \<Rightarrow> Inr (JObj [(''encrypted'', JBool True), (''data'', JStr encrypted)]))"
    for k'
    by (simp add: decryptField_def def_prop_def)
  have 1: "decryptField h (encryptField h v k) k = Inr v"
    using key dec json by (simp add: e d)
  have 2: "\<exists>r. decryptField h (encryptField h v k) k' = Inr r" for k'
    by (simp add: e d split: option.split)
  have 3: "decryptField h (encryptField h v k) k' = Inr (encryptField h v k)"
    if "no_key k' \<or> cipher_decrypt h (the k') encrypted = None
          \<or> (\<exists>s. cipher_decrypt h (the k') encrypted = Some s \<and> json_parse h s = None)" for k'
    using that by (auto simp: e d)
  have 4: "encryptField h v k0 = v" if "no_key k0" for k0
    using that by (simp add: encryptField_def)
  have 5: "decryptField h (encryptField h JNull k0) k' = Inl TypeError" if "no_key k0" for k0 k'
    using that by (simp add: encryptField_def decryptField_def)
  have 6: "decryptField h (encryptField h v k0) k' = Inr v"
    if "no_key k0 \<and> v \<noteq> JNull \<and> (no_key k' \<or> \<not> truthy_opt (def_prop v ''encrypted''))"
    for k0 k'
    using that
    by (cases v) (auto simp: encryptField_def decryptField_def def_prop_def split: option.splits)
  show ?thesis using e 1 2 3 4 5 6 by blast
qed


theorem C4_roundtrip_under_a_key_witness:
  "decryptField test_host (encryptField test_host (JStr ''secret'') (Some ''k1'')) (Some ''k1'') =
     Inr (JStr ''secret'')
   \<and> decryptField test_host (encryptField test_host (JStr ''secret'') (Some ''k1'')) (Some ''k2'') =
     Inr (JObj [(''encrypted'', JBool True), (''data'', JStr ''k1:\"secret\"'')])
   \<and> encryptField test_host (JStr ''secret'') None = JStr ''secret''
   \<and> decryptField test_host (encryptField test_host JNull None) (Some ''k2'') = Inl TypeError
   \<and> decryptField test_host (encryptField test_host (JStr ''secret'') None) (Some ''k2'') =
     Inr (JStr ''secret'')"
proof -
  have key: "\<not> no_key (Some ''k1'')" by simp
  have enc: "cipher_encrypt test_host (the (Some ''k1'')) (json_stringify test_host (JStr ''secret'')) =
               Some ''k1:\"secret\"''"
    by (simp add: test_host_def test_encrypt_def test_json_stringify_def)
  have dec: "cipher_decrypt test_host (the (Some ''k1'')) ''k1:\"secret\"'' =
               Some (json_stringify test_host (JStr ''secret''))"
    by (simp add: test_host_def test_decrypt_def test_json_stringify_def)
  have json: "json_parse test_host (json_stringify test_host (JStr ''secret'')) = Some (JStr ''secret'')"
    by (simp add: test_host_def test_json_parse_def test_json_stringify_def)
  have other: "cipher_decrypt test_host (the (Some ''k2'')) ''k1:\"secret\"'' = None"
    by (simp add: test_host_def test_decrypt_def)
  have plain: "\<not> truthy_opt (def_prop (JStr ''secret'') ''encrypted'')"
    by (simp add: def_prop_def)
  have none: "no_key None" by simp
  note t = C4_roundtrip_under_a_key[OF key enc dec json]
  have a: "decryptField test_host (encryptField test_host (JStr ''secret'') (Some ''k1'')) (Some ''k1'') =
     Inr (JStr ''secret'')" using t by blast
  have b: "decryptField test_host (encryptField test_host (JStr ''secret'') (Some ''k1'')) (Some ''k2'') =
     Inr (JObj [(''encrypted'', JBool True), (''data'', JStr ''k1:\"secret\"'')])"
    using t other by auto
  have c: "encryptField test_host (JStr ''secret'') None = JStr ''secret''"
    using t none by blast
  have d: "decryptField test_host (encryptField test_host JNull None) (Some ''k2'') = Inl TypeError"
    using t none by blast
  have e: "decryptField test_host (encryptField test_host (JStr ''secret'') None) (Some ''k2'') =
     Inr (JStr ''secret'')"
    using t none plain by blast
  show ?thesis using a b c d e by simp
qed


text \<open>
  C4 as the claim states it fails for the empty key: nothing is encrypted, and
  decrypting under a different key returns the original value, not a tagged ciphertext.
\<close>

theorem C4_empty_key_counterexample:
  "decryptField test_host (encryptField test_host (JStr ''abc'') (Some [])) (Some ''other'') =
     Inr (JStr ''abc'')"
  by (simp add: encryptField_def decryptField_def)

end
